theory Spec2Isabelle
  imports Complex_Main "HOL-Library.AList" "HOL-Library.Word" "HOL-Library.Char_ord"
    "HOL-Library.List_Lexorder"
begin

section \<open>JavaScript values the program computes with\<close>

text \<open>
  Strings are byte strings; the tag values, wallet addresses and meta values the program
  handles are ASCII, so \<open>toLowerCase\<close> folds the letters A to Z and \<open>trim\<close> and
  \<open>parseInt\<close> skip the ASCII white space and line terminators.

  A JavaScript number that \<open>Number.parseInt\<close> can return is an integer-valued double,
  \<open>NaN\<close> or an infinity. \<open>Num i\<close> stands for the double whose value is the integer
  \<open>i\<close> (the sign of zero is not kept: no operation below distinguishes it);
  \<open>to_number\<close> rounds a mathematical integer to the nearest double, ties to even, and
  overflows to an infinity. \<open>Number.isFinite(x)\<close> holds exactly when \<open>x\<close> is some
  \<open>Num i\<close>.
\<close>

datatype jsnum = NaN | Num int | Infinity | NegInfinity

fun bitlen :: "nat \<Rightarrow> nat" where
  "bitlen n = (if n = 0 then 0 else Suc (bitlen (n div 2)))"

declare bitlen.simps [simp del]

definition round_double :: "nat \<Rightarrow> nat option" where
  "round_double n =
     (if n < 2 ^ 53 then Some n
      else
        let e = bitlen n - 53;
            q = n div 2 ^ e;
            r = n mod 2 ^ e;
            half = 2 ^ (e - 1);
            q' = (if half < r \<or> (r = half \<and> odd q) then q + 1 else q)
        in if 2 ^ 1024 \<le> q' * 2 ^ e then None else Some (q' * 2 ^ e))"

definition to_number :: "int \<Rightarrow> jsnum" where
  "to_number i =
     (case round_double (nat \<bar>i\<bar>) of
        None \<Rightarrow> (if i < 0 then NegInfinity else Infinity)
      | Some m \<Rightarrow> Num (if i < 0 then - int m else int m))"

definition js_add :: "jsnum \<Rightarrow> jsnum \<Rightarrow> jsnum" where
  "js_add a b =
     (case (a, b) of
        (Num x, Num y) \<Rightarrow> to_number (x + y)
      | (NaN, _) \<Rightarrow> NaN
      | (_, NaN) \<Rightarrow> NaN
      | (Infinity, NegInfinity) \<Rightarrow> NaN
      | (NegInfinity, Infinity) \<Rightarrow> NaN
      | (Infinity, _) \<Rightarrow> Infinity
      | (_, Infinity) \<Rightarrow> Infinity
      | (NegInfinity, _) \<Rightarrow> NegInfinity
      | (_, NegInfinity) \<Rightarrow> NegInfinity)"

text \<open>
  The comparisons \<open>a > b\<close> and \<open>a <= b\<close> of two numbers: both are false as soon as
  one side is \<open>NaN\<close>.
\<close>

definition js_gt :: "jsnum \<Rightarrow> jsnum \<Rightarrow> bool" where
  "js_gt a b =
     (case (a, b) of
        (Num x, Num y) \<Rightarrow> y < x
      | (Num x, NegInfinity) \<Rightarrow> True
      | (Infinity, Num y) \<Rightarrow> True
      | (Infinity, NegInfinity) \<Rightarrow> True
      | _ \<Rightarrow> False)"

definition js_le :: "jsnum \<Rightarrow> jsnum \<Rightarrow> bool" where
  "js_le a b =
     (case (a, b) of
        (Num x, Num y) \<Rightarrow> x \<le> y
      | (Num x, Infinity) \<Rightarrow> True
      | (NegInfinity, Num y) \<Rightarrow> True
      | (NegInfinity, NegInfinity) \<Rightarrow> True
      | (NegInfinity, Infinity) \<Rightarrow> True
      | (Infinity, Infinity) \<Rightarrow> True
      | _ \<Rightarrow> False)"

definition isWhiteSpace :: "char \<Rightarrow> bool" where
  "isWhiteSpace c = (c \<in> set [CHR 0x09, CHR 0x0A, CHR 0x0B, CHR 0x0C, CHR 0x0D, CHR 0x20])"

definition isDigit :: "char \<Rightarrow> bool" where
  "isDigit c = (48 \<le> (of_char c :: nat) \<and> (of_char c :: nat) \<le> 57)"

definition digitVal :: "char \<Rightarrow> nat" where
  "digitVal c = of_char c - 48"

definition trim :: "string \<Rightarrow> string" where
  "trim s = rev (dropWhile isWhiteSpace (rev (dropWhile isWhiteSpace s)))"

definition toLowerChar :: "char \<Rightarrow> char" where
  "toLowerChar c =
     (case map_of (zip ''ABCDEFGHIJKLMNOPQRSTUVWXYZ'' ''abcdefghijklmnopqrstuvwxyz'') c of
        None \<Rightarrow> c
      | Some l \<Rightarrow> l)"

definition toLowerCase :: "string \<Rightarrow> string" where
  "toLowerCase s = map toLowerChar s"

text \<open>
  \<open>Number.parseInt(s, 10)\<close>: skip leading white space, take an optional sign, read the
  longest run of decimal digits, ignore the rest; no digit gives \<open>NaN\<close>.
\<close>

definition parseInt :: "string \<Rightarrow> jsnum" where
  "parseInt s =
     (let t = dropWhile isWhiteSpace s;
          neg = (case t of [] \<Rightarrow> False | c # _ \<Rightarrow> c = CHR ''-'');
          u = (case t of [] \<Rightarrow> []
               | c # cs \<Rightarrow> if c = CHR ''-'' \<or> c = CHR ''+'' then cs else t);
          z = takeWhile isDigit u
      in if z = [] then NaN
         else to_number ((if neg then - 1 else 1) *
                 int (foldl (\<lambda>a c. 10 * a + digitVal c) 0 z)))"

definition digitChar :: "nat \<Rightarrow> char" where
  "digitChar n = ''0123456789'' ! (n mod 10)"

fun decimal :: "nat \<Rightarrow> string" where
  "decimal n =
     (if n < 10 then [digitChar n]
      else decimal (n div 10) @ [digitChar (n mod 10)])"

declare decimal.simps [simp del]

text \<open>
  \<open>String(x)\<close> for a number. Integers are written in decimal; JavaScript switches to
  exponent notation from \<open>10^21\<close> on, which no version counter reaches and which is not
  modelled.
\<close>

definition js_String :: "jsnum \<Rightarrow> string" where
  "js_String x =
     (case x of
        NaN \<Rightarrow> ''NaN''
      | Infinity \<Rightarrow> ''Infinity''
      | NegInfinity \<Rightarrow> ''-Infinity''
      | Num i \<Rightarrow> (if i < 0 then CHR ''-'' # decimal (nat (- i)) else decimal (nat i)))"

fun join :: "string \<Rightarrow> string list \<Rightarrow> string" where
  "join sep [] = []"
| "join sep [x] = x"
| "join sep (x # y # ys) = x @ sep @ join sep (y # ys)"


section \<open>The local store (core/db)\<close>

text \<open>
  The tables of \<open>initSchema\<close>. A table is the list of its rows in insertion order.
  \<open>facts\<close> has \<open>id\<close> as primary key and \<open>key\<close> unique; \<open>pending_deletes\<close>,
  \<open>meta\<close> and \<open>shared_conversation_imports\<close> have \<open>key\<close>, \<open>key\<close> and
  \<open>share_id\<close> as primary keys. The \<open>tags\<close> column holds \<open>JSON.stringify(fact.tags)\<close>
  and \<open>payload\<close> holds \<open>JSON.stringify(entry.conversation)\<close>; both are kept as the
  value that was serialised.
\<close>

record fact =
  fact_id :: string
  fact_scope :: string
  fact_key :: string
  fact_value :: string
  fact_tags :: "string list"
  fact_confidence :: real
  fact_source_session :: "string option"
  fact_created :: string
  fact_last_confirmed :: string
  fact_access_count :: int

record fact_row =
  row_id :: string
  row_scope :: string
  row_key :: string
  row_value :: string
  row_tags :: "string list"
  row_confidence :: real
  row_source_session :: "string option"
  row_created :: string
  row_last_confirmed :: string
  row_access_count :: int
  row_dirty :: int

record message =
  msg_role :: string
  msg_content :: string

record conversation =
  conv_id :: string
  conv_client :: string
  conv_project :: string
  conv_messages :: "message list"
  conv_startedAt :: string
  conv_updatedAt :: string

record import_row =
  imp_share_id :: string
  imp_tx_id :: string
  imp_conversation_id :: string
  imp_client :: string
  imp_project :: string
  imp_message_count :: nat
  imp_imported_at :: string
  imp_payload :: conversation

record db =
  facts :: "fact_row list"
  pending_deletes :: "(string \<times> string) list"
  meta :: "(string \<times> string) list"
  shared_conversation_imports :: "import_row list"

text \<open>
  A statement that violates a constraint throws \<open>SqliteError\<close> and changes nothing; the
  error names the column, as in \<open>UNIQUE constraint failed: facts.id\<close>.
\<close>

datatype sql_error = UniqueConstraintFailed string

subsection \<open>Meta operations\<close>

definition getMeta :: "db \<Rightarrow> string \<Rightarrow> string option" where
  "getMeta d k = map_of (meta d) k"

definition setMeta :: "db \<Rightarrow> string \<Rightarrow> string \<Rightarrow> db" where
  "setMeta d k v = d\<lparr>meta := AList.update k v (meta d)\<rparr>"

subsection \<open>Fact operations\<close>

definition new_row :: "fact \<Rightarrow> fact_row" where
  "new_row f =
     \<lparr>row_id = fact_id f, row_scope = fact_scope f, row_key = fact_key f,
      row_value = fact_value f, row_tags = fact_tags f,
      row_confidence = fact_confidence f, row_source_session = fact_source_session f,
      row_created = fact_created f, row_last_confirmed = fact_last_confirmed f,
      row_access_count = fact_access_count f, row_dirty = 1\<rparr>"

definition update_row :: "fact \<Rightarrow> fact_row \<Rightarrow> fact_row" where
  "update_row f r =
     r\<lparr>row_id := fact_id f, row_scope := fact_scope f, row_value := fact_value f,
       row_tags := fact_tags f, row_confidence := fact_confidence f,
       row_source_session := fact_source_session f,
       row_last_confirmed := fact_last_confirmed f,
       row_access_count := fact_access_count f, row_dirty := 1\<rparr>"

text \<open>
  The first statement of \<open>upsertFact\<close>:
  \<open>INSERT INTO facts (...) VALUES (..., 1) ON CONFLICT(key) DO UPDATE SET ...\<close>.
  The upsert clause handles a conflict on \<open>key\<close> only. The primary key \<open>id\<close> is
  checked as well: if another row (one with a different key) already has the new id,
  neither the insert nor the update can go through and the statement fails.
\<close>

definition insert_fact_on_conflict_update :: "db \<Rightarrow> fact \<Rightarrow> sql_error + db" where
  "insert_fact_on_conflict_update d f =
     (if list_ex (\<lambda>r. row_key r \<noteq> fact_key f \<and> row_id r = fact_id f) (facts d)
      then Inl (UniqueConstraintFailed ''facts.id'')
      else if list_ex (\<lambda>r. row_key r = fact_key f) (facts d)
      then Inr (d\<lparr>facts := map (\<lambda>r. if row_key r = fact_key f then update_row f r else r)
                               (facts d)\<rparr>)
      else Inr (d\<lparr>facts := facts d @ [new_row f]\<rparr>))"

text \<open>The second statement: \<open>DELETE FROM pending_deletes WHERE key = ?\<close>.\<close>

definition delete_pending :: "db \<Rightarrow> string \<Rightarrow> db" where
  "delete_pending d k = d\<lparr>pending_deletes := filter (\<lambda>p. fst p \<noteq> k) (pending_deletes d)\<rparr>"

text \<open>
  \<open>upsertFact\<close> runs the two statements one after the other, with no transaction around
  them. The result is the exception thrown, if any, and the store as it is left.
\<close>

definition upsertFact :: "db \<Rightarrow> fact \<Rightarrow> sql_error option \<times> db" where
  "upsertFact d f =
     (case insert_fact_on_conflict_update d f of
        Inl e \<Rightarrow> (Some e, d)
      | Inr d1 \<Rightarrow> (None, delete_pending d1 (fact_key f)))"

text \<open>
  A call of \<open>run\<close> can also throw for a reason outside its statement: the database is
  locked by another connection, the disk is full, a write fails. Such a statement changes
  nothing, and what the statements before it did is committed already, since
  \<open>upsertFact\<close> opens no transaction. \<open>engine i\<close> is the message of that error for
  the \<open>i\<close>-th statement of the call, if there is one; \<open>upsertFact\<close> above is the
  call in which the engine runs both statements.
\<close>

datatype run_error = Constraint sql_error | Engine string

definition upsertFact_run ::
  "(nat \<Rightarrow> string option) \<Rightarrow> db \<Rightarrow> fact \<Rightarrow> run_error option \<times> db" where
  "upsertFact_run engine d f =
     (case engine 0 of
        Some msg \<Rightarrow> (Some (Engine msg), d)
      | None \<Rightarrow>
          (case insert_fact_on_conflict_update d f of
             Inl e \<Rightarrow> (Some (Constraint e), d)
           | Inr d1 \<Rightarrow>
               (case engine 1 of
                  Some msg \<Rightarrow> (Some (Engine msg), d1)
                | None \<Rightarrow> (None, delete_pending d1 (fact_key f)))))"

text \<open>
  \<open>deleteFact\<close>; \<open>now\<close> is \<open>new Date().toISOString()\<close>.
  \<open>INSERT OR REPLACE\<close> removes the row that holds the key and inserts the new one.
\<close>

definition deleteFact :: "db \<Rightarrow> string \<Rightarrow> string \<Rightarrow> db" where
  "deleteFact d k now =
     (let exists = list_ex (\<lambda>r. row_key r = k) (facts d);
          d1 = d\<lparr>facts := filter (\<lambda>r. row_key r \<noteq> k) (facts d)\<rparr>
      in if exists
         then d1\<lparr>pending_deletes :=
                   filter (\<lambda>p. fst p \<noteq> k) (pending_deletes d1) @ [(k, now)]\<rparr>
         else d1)"

definition rowToFact :: "fact_row \<Rightarrow> fact" where
  "rowToFact r =
     \<lparr>fact_id = row_id r, fact_scope = row_scope r, fact_key = row_key r,
      fact_value = row_value r, fact_tags = row_tags r,
      fact_confidence = row_confidence r,
      fact_source_session =
        (case row_source_session r of None \<Rightarrow> None
         | Some s \<Rightarrow> if s = [] then None else Some s),
      fact_created = row_created r, fact_last_confirmed = row_last_confirmed r,
      fact_access_count = row_access_count r\<rparr>"

definition getFact :: "db \<Rightarrow> string \<Rightarrow> fact option" where
  "getFact d k = map_option rowToFact (find (\<lambda>r. row_key r = k) (facts d))"

definition getDirtyFacts :: "db \<Rightarrow> fact list" where
  "getDirtyFacts d = map rowToFact (filter (\<lambda>r. row_dirty r = 1) (facts d))"

text \<open>
  \<open>SELECT key FROM pending_deletes\<close> reads the keys from the index of the primary key,
  so they come in ascending byte order.
\<close>

definition getPendingDeletes :: "db \<Rightarrow> string list" where
  "getPendingDeletes d = sort (map fst (pending_deletes d))"

definition clearDirtyState :: "db \<Rightarrow> db" where
  "clearDirtyState d =
     d\<lparr>facts := map (\<lambda>r. r\<lparr>row_dirty := 0\<rparr>) (facts d), pending_deletes := []\<rparr>"

definition incrementAccessCount :: "db \<Rightarrow> string \<Rightarrow> db" where
  "incrementAccessCount d k =
     d\<lparr>facts := map (\<lambda>r. if row_key r = k
                            then r\<lparr>row_access_count := row_access_count r + 1\<rparr> else r)
                      (facts d)\<rparr>"

subsection \<open>The share-import ledger\<close>

definition hasSharedConversationImport :: "db \<Rightarrow> string \<Rightarrow> bool" where
  "hasSharedConversationImport d shareId =
     list_ex (\<lambda>r. imp_share_id r = shareId) (shared_conversation_imports d)"

record import_entry =
  entry_shareId :: string
  entry_txId :: string
  entry_conversation :: conversation

text \<open>
  \<open>saveSharedConversationImport\<close> is a plain \<open>INSERT\<close>: a row with the same
  \<open>share_id\<close> makes the primary key fail. \<open>now\<close> is \<open>new Date().toISOString()\<close>.
\<close>

definition saveSharedConversationImport ::
  "db \<Rightarrow> import_entry \<Rightarrow> string \<Rightarrow> sql_error option \<times> db" where
  "saveSharedConversationImport d entry now =
     (if list_ex (\<lambda>r. imp_share_id r = entry_shareId entry) (shared_conversation_imports d)
      then (Some (UniqueConstraintFailed ''shared_conversation_imports.share_id''), d)
      else (None,
            d\<lparr>shared_conversation_imports :=
                shared_conversation_imports d @
                [\<lparr>imp_share_id = entry_shareId entry, imp_tx_id = entry_txId entry,
                  imp_conversation_id = conv_id (entry_conversation entry),
                  imp_client = conv_client (entry_conversation entry),
                  imp_project = conv_project (entry_conversation entry),
                  imp_message_count = length (conv_messages (entry_conversation entry)),
                  imp_imported_at = now,
                  imp_payload = entry_conversation entry\<rparr>]\<rparr>))"


section \<open>The fact push of the sync engine (mcp/server, \<open>syncDirtyFacts\<close>)\<close>

datatype operation = Upsert fact | Delete string

record shard =
  shard_version :: jsnum
  shard_id :: string
  shard_type :: string
  shard_operations :: "operation list"

text \<open>
  Modelled from the spec: \<open>factToUpsertOp\<close> of core/shard is not among the sources;
  the spec gives \<open>factToUpsertOp(fact) \<rightarrow> {op: upsert, fact}\<close>, which strips \<open>dirty\<close>
  (a fact read by \<open>rowToFact\<close> carries none).
\<close>

definition factToUpsertOp :: "fact \<Rightarrow> operation" where
  "factToUpsertOp f = Upsert f"

text \<open>
  What \<open>syncDirtyFacts\<close> calls outside the store. \<open>createChunkedShards\<close> (core/shard)
  is a parameter; it may throw. \<open>pushShard env i s\<close> stands for the body of the loop
  for the \<open>i\<close>-th shard of the batch: \<open>serializeShard\<close>, \<open>encrypt\<close> and
  \<open>pushShard\<close> (core/sync), giving the transaction id or the message of what was thrown.
\<close>

record push_env =
  uuidv4 :: string
  createChunkedShards :: "operation list \<Rightarrow> jsnum \<Rightarrow> string \<Rightarrow> string + shard list"
  pushShard :: "nat \<Rightarrow> shard \<Rightarrow> string + string"

datatype push_outcome = NothingToPush | Pushed jsnum | SyncFailed string

text \<open>
  The \<open>for (const shard of shards)\<close> loop. The result is the exception or the last
  version, and the list of the calls of \<open>pushShard\<close> with its outcome, in order.
\<close>

fun upload_shards ::
  "(nat \<Rightarrow> shard \<Rightarrow> string + string) \<Rightarrow> nat \<Rightarrow> shard list \<Rightarrow> jsnum
     \<Rightarrow> (string + jsnum) \<times> (shard \<times> (string + string)) list" where
  "upload_shards push i [] lastVersion = (Inr lastVersion, [])"
| "upload_shards push i (s # ss) lastVersion =
     (case push i s of
        Inl e \<Rightarrow> (Inl e, [(s, Inl e)])
      | Inr txId \<Rightarrow>
          (case upload_shards push (Suc i) ss (shard_version s) of
             (r, calls) \<Rightarrow> (r, (s, Inr txId) # calls)))"

text \<open>
  The operations of a tick, the version read from \<open>meta\<close>
  (\<open>parseInt(getMeta(db, "current_version") ?? "0", 10)\<close>) and the call of
  \<open>createChunkedShards\<close> with \<open>startVersion = currentVersion + 1\<close>.
\<close>

definition push_operations :: "db \<Rightarrow> operation list" where
  "push_operations d =
     map factToUpsertOp (getDirtyFacts d) @ map Delete (getPendingDeletes d)"

definition currentVersion :: "db \<Rightarrow> jsnum" where
  "currentVersion d =
     parseInt (case getMeta d ''current_version'' of None \<Rightarrow> ''0'' | Some v \<Rightarrow> v)"

definition planned_shards :: "push_env \<Rightarrow> db \<Rightarrow> string + shard list" where
  "planned_shards env d =
     createChunkedShards env (push_operations d) (js_add (currentVersion d) (Num 1))
       (uuidv4 env)"

text \<open>
  One push tick. The \<open>try\<close>/\<open>catch\<close> around the whole body turns every exception
  into \<open>SyncFailed\<close>, with the store as it is at that point. The result is the store
  after the tick, the calls of \<open>pushShard\<close> and the outcome.
\<close>

definition syncDirtyFacts ::
  "push_env \<Rightarrow> db \<Rightarrow> db \<times> (shard \<times> (string + string)) list \<times> push_outcome" where
  "syncDirtyFacts env d =
     (if getDirtyFacts d = [] \<and> getPendingDeletes d = [] then (d, [], NothingToPush)
      else
        (case planned_shards env d of
           Inl e \<Rightarrow> (d, [], SyncFailed e)
         | Inr shards \<Rightarrow>
             (case upload_shards (pushShard env) 0 shards (currentVersion d) of
                (Inl e, calls) \<Rightarrow> (d, calls, SyncFailed e)
              | (Inr lastVersion, calls) \<Rightarrow>
                  (setMeta
                     (setMeta (clearDirtyState d) ''current_version'' (js_String lastVersion))
                     ''last_pushed_version'' (js_String lastVersion),
                   calls, Pushed lastVersion))))"


section \<open>The archive adapter (core/arweave)\<close>

definition GQL_MAX_PAGES :: nat where
  "GQL_MAX_PAGES = 1000"

record node =
  node_id :: string
  node_tags :: "(string \<times> string) list"

record edge =
  edge_cursor :: string
  edge_node :: node

text \<open>
  The parsed body of a GraphQL response, as \<open>queryShards\<close> reads it:
  \<open>json.errors\<close> (each entry's \<open>message\<close>, if it has one; empty when absent),
  \<open>json.data?.transactions?.edges ?? []\<close> and
  \<open>transactions?.pageInfo?.hasNextPage === true\<close>.
\<close>

record gql_json =
  json_errors :: "string option list"
  json_edges :: "edge list"
  json_hasNextPage :: bool

text \<open>
  What \<open>fetch\<close> gives for a GraphQL request: it throws (network error), or there is a
  response with \<open>res.ok\<close>, the text \<open>res.status res.statusText\<close> and the outcome of
  \<open>res.json()\<close>.
\<close>

datatype gql_http =
  GqlNetworkError string
| GqlResponse bool string "string + gql_json"

text \<open>
  The \<open>try\<close> block of \<open>gqlRequest\<close> for one endpoint: the parsed body, or the
  message of what was thrown (by \<open>fetch\<close>, by the test of \<open>res.ok\<close> or by
  \<open>res.json()\<close>). The body is not inspected: a response that carries GraphQL
  \<open>errors\<close> is returned like any other.
\<close>

definition gql_attempt :: "gql_http \<Rightarrow> string + gql_json" where
  "gql_attempt res =
     (case res of
        GqlNetworkError msg \<Rightarrow> Inl msg
      | GqlResponse ok status body \<Rightarrow> if \<not> ok then Inl status else body)"

text \<open>
  \<open>gqlRequest\<close>: the endpoints in order, the first answer wins. The second component
  lists the endpoints that were contacted.
\<close>

fun gqlRequest_from ::
  "(string \<Rightarrow> gql_http) \<Rightarrow> string list \<Rightarrow> string list
     \<Rightarrow> (string + gql_json) \<times> string list" where
  "gqlRequest_from fetch [] errors =
     (Inl (''Arweave GraphQL request failed across all gateways: '' @ join '' | '' errors),
      [])"
| "gqlRequest_from fetch (endpoint # rest) errors =
     (case gql_attempt (fetch endpoint) of
        Inr json \<Rightarrow> (Inr json, [endpoint])
      | Inl msg \<Rightarrow>
          (case gqlRequest_from fetch rest (errors @ [endpoint @ '': '' @ msg]) of
             (r, contacted) \<Rightarrow> (r, endpoint # contacted)))"

definition gqlRequest ::
  "string list \<Rightarrow> (string \<Rightarrow> gql_http) \<Rightarrow> (string + gql_json) \<times> string list" where
  "gqlRequest endpoints fetch = gqlRequest_from fetch endpoints []"

record ShardInfo =
  si_txId :: string
  si_version :: int
  si_type :: string
  si_timestamp :: string
  si_signature :: "string option"
  si_wallet :: string

text \<open>
  The body of the loop over the edges of a page, after the test on \<open>seenTxIds\<close>:
  \<open>None\<close> is \<open>continue\<close>. \<open>new Map(tags.map(...))\<close> keeps the last value of a
  repeated tag name.
\<close>

definition shardOfNode :: "string \<Rightarrow> node \<Rightarrow> ShardInfo option" where
  "shardOfNode walletAddress n =
     (let tagMap = map_of (rev (node_tags n))
      in case tagMap ''Type'' of
           None \<Rightarrow> None
         | Some rawType \<Rightarrow>
             if rawType \<noteq> ''delta'' \<and> rawType \<noteq> ''snapshot'' \<and> rawType \<noteq> ''identity''
             then None
             else
               let wallet = (case tagMap ''Wallet'' of None \<Rightarrow> [] | Some w \<Rightarrow> w)
               in if wallet = [] \<or> toLowerCase wallet \<noteq> toLowerCase walletAddress
                  then None
                  else
                    let rawSignature =
                          (case tagMap ''Signature'' of None \<Rightarrow> [] | Some s \<Rightarrow> trim s);
                        signature = (if rawSignature \<noteq> [] then Some rawSignature else None);
                        timestamp = (case tagMap ''Timestamp'' of None \<Rightarrow> [] | Some t \<Rightarrow> t)
                    in if rawType = ''delta'' \<or> rawType = ''snapshot''
                       then
                         (case tagMap ''Version'' of
                            None \<Rightarrow> None
                          | Some rawVersion \<Rightarrow>
                              if rawVersion = [] then None
                              else
                                (case parseInt rawVersion of
                                   Num parsedVersion \<Rightarrow>
                                     if parsedVersion < 1 then None
                                     else if signature = None then None
                                     else Some \<lparr>si_txId = node_id n,
                                                si_version = parsedVersion,
                                                si_type = rawType, si_timestamp = timestamp,
                                                si_signature = signature,
                                                si_wallet = wallet\<rparr>
                                 | _ \<Rightarrow> None))
                       else if signature = None then None
                       else Some \<lparr>si_txId = node_id n, si_version = 0, si_type = rawType,
                                  si_timestamp = timestamp, si_signature = signature,
                                  si_wallet = wallet\<rparr>)"

fun collect_edges ::
  "string \<Rightarrow> edge list \<Rightarrow> ShardInfo list \<Rightarrow> string set \<Rightarrow> ShardInfo list \<times> string set" where
  "collect_edges w [] shards seen = (shards, seen)"
| "collect_edges w (e # es) shards seen =
     (if node_id (edge_node e) \<in> seen then collect_edges w es shards seen
      else
        (case shardOfNode w (edge_node e) of
           None \<Rightarrow> collect_edges w es shards (insert (node_id (edge_node e)) seen)
         | Some s \<Rightarrow>
             collect_edges w es (shards @ [s]) (insert (node_id (edge_node e)) seen)))"

text \<open>
  The \<open>while (true)\<close> loop of \<open>queryShards\<close>. \<open>fetch p after endpoint\<close> is what
  the endpoint answers to the request for page \<open>p\<close> with cursor \<open>after\<close>.
\<close>

function queryShards_loop ::
  "string list \<Rightarrow> (nat \<Rightarrow> string option \<Rightarrow> string \<Rightarrow> gql_http) \<Rightarrow> string
     \<Rightarrow> nat \<Rightarrow> string option \<Rightarrow> ShardInfo list \<Rightarrow> string set
     \<Rightarrow> string + ShardInfo list" where
  "queryShards_loop endpoints fetch w pageCount after shards seen =
     (if GQL_MAX_PAGES < Suc pageCount
      then Inl ''Arweave GraphQL pagination exceeded 1000 pages.''
      else
        (case fst (gqlRequest endpoints (fetch (Suc pageCount) after)) of
           Inl e \<Rightarrow> Inl e
         | Inr json \<Rightarrow>
             if json_errors json \<noteq> []
             then Inl (''Arweave GraphQL returned errors: '' @
                       join ''; '' (map (\<lambda>m. case m of None \<Rightarrow> ''unknown'' | Some s \<Rightarrow> s)
                                       (json_errors json)))
             else if json_edges json = [] then Inr shards
             else
               (case collect_edges w (json_edges json) shards seen of
                  (shards', seen') \<Rightarrow>
                    if \<not> json_hasNextPage json \<or> edge_cursor (last (json_edges json)) = []
                    then Inr shards'
                    else queryShards_loop endpoints fetch w (Suc pageCount)
                           (Some (edge_cursor (last (json_edges json)))) shards' seen')))"
  by pat_completeness auto
termination
  by (relation "measure (\<lambda>(endpoints, fetch, w, pageCount, after, shards, seen).
                           Suc GQL_MAX_PAGES - pageCount)") auto

declare queryShards_loop.simps [simp del]

text \<open>
  \<open>shards.sort((a, b) => a.version - b.version)\<close>: \<open>Array.prototype.sort\<close> is
  stable, as the insertion sort \<open>sort_key\<close> is.
\<close>

definition queryShards ::
  "string list \<Rightarrow> (nat \<Rightarrow> string option \<Rightarrow> string \<Rightarrow> gql_http) \<Rightarrow> string
     \<Rightarrow> string + ShardInfo list" where
  "queryShards endpoints fetch walletAddress =
     (case queryShards_loop endpoints fetch walletAddress 0 None [] {} of
        Inl e \<Rightarrow> Inl e
      | Inr shards \<Rightarrow> Inr (sort_key si_version shards))"

subsection \<open>Download\<close>

type_synonym byte = "8 word"

text \<open>
  What \<open>fetch\<close> gives for a data request: it throws, or there is a response with
  \<open>res.ok\<close>, the text \<open>res.status res.statusText\<close>, the \<open>content-length\<close> header
  and the outcome of \<open>res.arrayBuffer()\<close>.
\<close>

datatype data_http =
  DataNetworkError string
| DataResponse bool string "string option" "string + byte list"

definition blob_too_large :: "int \<Rightarrow> jsnum \<Rightarrow> string" where
  "blob_too_large n maxBytes =
     ''blob too large: '' @ js_String (Num n) @ '' bytes (max '' @ js_String maxBytes @ '')''"

text \<open>
  One pass of the \<open>try\<close> block of \<open>downloadShard\<close> for one endpoint: the bytes or the
  message of the exception, and whether \<open>res.arrayBuffer()\<close> was called.
  \<open>maxBytes\<close> is \<open>None\<close> when the argument is not a number (not given); a given
  limit is any number, \<open>NaN\<close> and the infinities included (a finite limit is a byte
  count, integer-valued). The header is compared only when it parses to a finite number.
\<close>

definition download_attempt ::
  "data_http \<Rightarrow> jsnum option \<Rightarrow> (string + byte list) \<times> bool" where
  "download_attempt res maxBytes =
     (case res of
        DataNetworkError msg \<Rightarrow> (Inl msg, False)
      | DataResponse ok status contentLength body \<Rightarrow>
          if \<not> ok then (Inl status, False)
          else
            (case (case (maxBytes, contentLength) of
                     (Some m, Some cl) \<Rightarrow>
                       if cl = [] then None
                       else (case parseInt cl of
                               Num declared \<Rightarrow>
                                 if js_gt (Num declared) m
                                 then Some (blob_too_large declared m)
                                 else None
                             | _ \<Rightarrow> None)
                   | _ \<Rightarrow> None) of
               Some msg \<Rightarrow> (Inl msg, False)
             | None \<Rightarrow>
                 (case body of
                    Inl msg \<Rightarrow> (Inl msg, True)
                  | Inr buffer \<Rightarrow>
                      (case maxBytes of
                         Some m \<Rightarrow>
                           if js_gt (Num (int (length buffer))) m
                           then (Inl (blob_too_large (int (length buffer)) m), True)
                           else (Inr buffer, True)
                       | None \<Rightarrow> (Inr buffer, True)))))"

text \<open>
  \<open>downloadShard\<close>: the data endpoints in order. The second component lists the
  endpoints whose body was read.
\<close>

fun downloadShard_from ::
  "(string \<Rightarrow> data_http) \<Rightarrow> string \<Rightarrow> jsnum option \<Rightarrow> string list \<Rightarrow> string list
     \<Rightarrow> (string + byte list) \<times> string list" where
  "downloadShard_from fetch txId maxBytes [] errors =
     (Inl (''Arweave download failed for '' @ txId @ '' across all gateways: '' @
           join '' | '' errors), [])"
| "downloadShard_from fetch txId maxBytes (endpoint # rest) errors =
     (case download_attempt (fetch (endpoint @ ''/'' @ txId)) maxBytes of
        (Inr bytes, body_read) \<Rightarrow> (Inr bytes, [endpoint])
      | (Inl msg, body_read) \<Rightarrow>
          (case downloadShard_from fetch txId maxBytes rest
                  (errors @ [endpoint @ '': '' @ msg]) of
             (r, reads) \<Rightarrow> (r, if body_read then endpoint # reads else reads)))"

definition downloadShard ::
  "string list \<Rightarrow> (string \<Rightarrow> data_http) \<Rightarrow> string \<Rightarrow> jsnum option
     \<Rightarrow> (string + byte list) \<times> string list" where
  "downloadShard endpoints fetch txId maxBytes =
     downloadShard_from fetch txId maxBytes endpoints []"


section \<open>Share redemption (cli/sync, \<open>syncCommand\<close>)\<close>

definition MAX_SHARE_BYTES :: int where
  "MAX_SHARE_BYTES = 2 * 1024 * 1024"

record decoded_token =
  tok_shareId :: string
  tok_key :: "byte list"
  tok_txId :: "string option"

record share_info =
  share_txId :: string
  share_shareId :: string
  share_wallet :: string
  share_timestamp :: string
  share_signature :: "string option"

text \<open>
  The parsed payload: \<open>payload.v\<close>, \<open>payload.conversation\<close> (if there is one) and
  whether its \<open>id\<close>, \<open>project\<close>, \<open>startedAt\<close> and \<open>updatedAt\<close> are strings
  and its \<open>messages\<close> an array, which is what \<open>validatePayload\<close> tests besides the
  client.
\<close>

record share_payload =
  payload_v :: int
  payload_conversation :: "conversation option"
  payload_well_typed :: bool

text \<open>
  What \<open>syncCommand\<close> calls outside the store: \<open>decodeToken\<close> is \<open>extractToken\<close>
  followed by \<open>decodeShareToken\<close>; the data endpoints and their answers, for
  \<open>downloadShard\<close>; \<open>queryConversationShare\<close>; \<open>verifySignature\<close>;
  \<open>decryptAndParse\<close> is \<open>decrypt\<close> followed by \<open>JSON.parse\<close>, \<open>None\<close> when
  either throws; \<open>clock_now\<close> is the clock read by \<open>saveSharedConversationImport\<close>.
\<close>

record sync_env =
  decodeToken :: "string \<Rightarrow> string + decoded_token"
  data_endpoints :: "string list"
  data_fetch :: "string \<Rightarrow> data_http"
  queryConversationShare :: "string \<Rightarrow> string + share_info option"
  verifySignature :: "byte list \<Rightarrow> string \<Rightarrow> string \<Rightarrow> bool"
  decryptAndParse :: "byte list \<Rightarrow> byte list \<Rightarrow> share_payload option"
  clock_now :: string

definition validatePayload :: "share_payload \<Rightarrow> string + conversation" where
  "validatePayload payload =
     (case payload_conversation payload of
        None \<Rightarrow> Inl ''Invalid share payload version.''
      | Some c \<Rightarrow>
          if payload_v payload \<noteq> 1 then Inl ''Invalid share payload version.''
          else if \<not> payload_well_typed payload
                  \<or> (conv_client c \<noteq> ''cursor'' \<and> conv_client c \<noteq> ''claude-code'')
          then Inl ''Invalid conversation payload.''
          else Inr c)"

text \<open>
  Lines 30 to 49: the direct download by the token's transaction id, then the fallback to
  the lookup by share id. The result is the share info (if the lookup ran), the
  transaction id and the bytes.
\<close>

definition fetch_share ::
  "sync_env \<Rightarrow> decoded_token \<Rightarrow> string + (share_info option \<times> string option \<times> byte list)" where
  "fetch_share env decoded =
     (let direct =
            (case tok_txId decoded of
               None \<Rightarrow> None
             | Some t \<Rightarrow>
                 if t = [] then None
                 else (case fst (downloadShard (data_endpoints env) (data_fetch env) t
                                   (Some (Num MAX_SHARE_BYTES))) of
                         Inl e \<Rightarrow> None
                       | Inr bytes \<Rightarrow> Some bytes))
      in case direct of
           Some bytes \<Rightarrow> Inr (None, tok_txId decoded, bytes)
         | None \<Rightarrow>
             (case queryConversationShare env (tok_shareId decoded) of
                Inl e \<Rightarrow> Inl e
              | Inr None \<Rightarrow> Inl (''No share found for id: '' @ tok_shareId decoded)
              | Inr (Some info) \<Rightarrow>
                  (case fst (downloadShard (data_endpoints env) (data_fetch env)
                               (share_txId info) (Some (Num MAX_SHARE_BYTES))) of
                     Inl e \<Rightarrow> Inl e
                   | Inr bytes \<Rightarrow> Inr (Some info, Some (share_txId info), bytes))))"

text \<open>
  Lines 30 to 66, all that \<open>syncCommand\<close> does with a decoded token before it opens
  the store: fetch the bytes, verify the signature when the lookup gave one, decrypt,
  parse and validate. The result is the message of what was thrown, or the transaction
  id and the conversation.
\<close>

definition load_share ::
  "sync_env \<Rightarrow> decoded_token \<Rightarrow> string + (string option \<times> conversation)" where
  "load_share env decoded =
     (case fetch_share env decoded of
        Inl e \<Rightarrow> Inl e
      | Inr (shareInfo, txId, encrypted) \<Rightarrow>
          if (case shareInfo of
                None \<Rightarrow> False
              | Some info \<Rightarrow>
                  (case share_signature info of
                     None \<Rightarrow> False
                   | Some sg \<Rightarrow>
                       sg \<noteq> [] \<and> share_wallet info \<noteq> [] \<and>
                       \<not> verifySignature env encrypted sg (share_wallet info)))
          then Inl ''Share signature verification failed.''
          else
            (case decryptAndParse env encrypted (tok_key decoded) of
               None \<Rightarrow> Inl ''Could not decrypt shared payload. Token may be invalid.''
             | Some payload \<Rightarrow>
                 (case validatePayload payload of
                    Inl e \<Rightarrow> Inl e
                  | Inr conversation \<Rightarrow> Inr (txId, conversation))))"

datatype sync_outcome =
  NotInitialized
| SyncError string
| ShareAlreadyImported
| ConversationImported import_entry

text \<open>
  \<open>syncCommand\<close>. The store is \<open>None\<close> when the database file does not exist
  (\<open>process.exit(1)\<close>). The result is what the command reports and the store it leaves.
  The ledger is tested only after the share has been loaded.
\<close>

definition syncCommand :: "sync_env \<Rightarrow> db option \<Rightarrow> string \<Rightarrow> sync_outcome \<times> db option" where
  "syncCommand env store urlOrToken =
     (case store of
        None \<Rightarrow> (NotInitialized, None)
      | Some d \<Rightarrow>
          (case decodeToken env urlOrToken of
             Inl e \<Rightarrow> (SyncError e, Some d)
           | Inr decoded \<Rightarrow>
               (case load_share env decoded of
                  Inl e \<Rightarrow> (SyncError e, Some d)
                | Inr (txId, conversation) \<Rightarrow>
                    if hasSharedConversationImport d (tok_shareId decoded)
                    then (ShareAlreadyImported, Some d)
                    else
                      (let entry =
                             \<lparr>entry_shareId = tok_shareId decoded,
                              entry_txId = (case txId of None \<Rightarrow> ''unknown'' | Some t \<Rightarrow> t),
                              entry_conversation = conversation\<rparr>
                       in case saveSharedConversationImport d entry (clock_now env) of
                            (Some (UniqueConstraintFailed c), d') \<Rightarrow>
                              (SyncError (''UNIQUE constraint failed: '' @ c), Some d')
                          | (None, d') \<Rightarrow> (ConversationImported entry, Some d')))))"


section \<open>Example inputs\<close>

definition stored_row :: fact_row where
  "stored_row =
     \<lparr>row_id = ''id-1'', row_scope = ''global'', row_key = ''global:auth:strategy'',
      row_value = ''sessions'', row_tags = [''auth''], row_confidence = 1,
      row_source_session = None, row_created = ''2026-01-01T00:00:00.000Z'',
      row_last_confirmed = ''2026-01-01T00:00:00.000Z'', row_access_count = 4,
      row_dirty = 0\<rparr>"

definition jwt_fact :: fact where
  "jwt_fact =
     \<lparr>fact_id = ''id-2'', fact_scope = ''global'', fact_key = ''global:auth:strategy'',
      fact_value = ''JWT'', fact_tags = [''auth'', ''decision''], fact_confidence = 1,
      fact_source_session = None, fact_created = ''2026-02-02T00:00:00.000Z'',
      fact_last_confirmed = ''2026-02-02T00:00:00.000Z'', fact_access_count = 0\<rparr>"

definition orm_fact :: fact where
  "orm_fact =
     \<lparr>fact_id = ''id-3'', fact_scope = ''global'', fact_key = ''global:database:orm'',
      fact_value = ''drizzle'', fact_tags = [''database''], fact_confidence = 1,
      fact_source_session = None, fact_created = ''2026-02-03T00:00:00.000Z'',
      fact_last_confirmed = ''2026-02-03T00:00:00.000Z'', fact_access_count = 0\<rparr>"

text \<open>A fact for a new key that reuses the id of the stored row.\<close>

definition clashing_fact :: fact where
  "clashing_fact = orm_fact\<lparr>fact_id := ''id-1''\<rparr>"

text \<open>
  A store with one clean fact, a tombstone for \<open>global:database:orm\<close> and version 3
  pushed.
\<close>

definition store0 :: db where
  "store0 =
     \<lparr>facts = [stored_row],
      pending_deletes = [(''global:database:orm'', ''2026-01-15T00:00:00.000Z'')],
      meta = [(''current_version'', ''3''), (''last_pushed_version'', ''3'')],
      shared_conversation_imports = []\<rparr>"

definition chat :: conversation where
  "chat =
     \<lparr>conv_id = ''c-1'', conv_client = ''cursor'', conv_project = ''demo'',
      conv_messages = [\<lparr>msg_role = ''user'', msg_content = ''hello''\<rparr>],
      conv_startedAt = ''2026-01-01T00:00:00.000Z'',
      conv_updatedAt = ''2026-01-01T00:05:00.000Z''\<rparr>"

definition chat_entry :: import_entry where
  "chat_entry = \<lparr>entry_shareId = ''share-1'', entry_txId = ''tx-9'', entry_conversation = chat\<rparr>"


text \<open>
  A store with one fact that was never pushed, and two worlds for a push tick: in both
  \<open>createChunkedShards\<close> packs the operations, which fit the budget, into one shard;
  in \<open>gateway_down\<close> every upload throws, in \<open>gateway_up\<close> every upload goes
  through.
\<close>

definition dirty_store :: db where
  "dirty_store =
     \<lparr>facts = [new_row jwt_fact], pending_deletes = [], meta = [],
      shared_conversation_imports = []\<rparr>"

definition one_shard :: "operation list \<Rightarrow> jsnum \<Rightarrow> string \<Rightarrow> string + shard list" where
  "one_shard ops v sid =
     Inr [\<lparr>shard_version = v, shard_id = sid, shard_type = ''delta'',
           shard_operations = ops\<rparr>]"

definition gateway_down :: push_env where
  "gateway_down =
     \<lparr>uuidv4 = ''uuid-1'', createChunkedShards = one_shard,
      pushShard = (\<lambda>i s. Inl ''upload failed'')\<rparr>"

definition gateway_up :: push_env where
  "gateway_up =
     \<lparr>uuidv4 = ''uuid-2'', createChunkedShards = one_shard,
      pushShard = (\<lambda>i s. Inr ''tx-1'')\<rparr>"


text \<open>
  A store with two facts that were never pushed and one tombstone, and a world in which
  \<open>createChunkedShards\<close> gives every operation a shard of its own (as it does for
  operations that each fill the budget) and the second upload of a batch throws.
\<close>

definition busy_store :: db where
  "busy_store =
     \<lparr>facts = [new_row jwt_fact, new_row orm_fact],
      pending_deletes = [(''global:old'', ''2026-01-15T00:00:00.000Z'')],
      meta = [(''current_version'', ''3''), (''last_pushed_version'', ''3'')],
      shared_conversation_imports = []\<rparr>"

fun shard_per_operation :: "operation list \<Rightarrow> jsnum \<Rightarrow> string \<Rightarrow> shard list" where
  "shard_per_operation [] v sid = []"
| "shard_per_operation (x # xs) v sid =
     \<lparr>shard_version = v, shard_id = sid, shard_type = ''delta'', shard_operations = [x]\<rparr>
       # shard_per_operation xs (js_add v (Num 1)) sid"

definition second_upload_fails :: push_env where
  "second_upload_fails =
     \<lparr>uuidv4 = ''uuid-3'',
      createChunkedShards = (\<lambda>ops v sid. Inr (shard_per_operation ops v sid)),
      pushShard = (\<lambda>i s. if i = 1 then Inl ''upload failed'' else Inr ''tx-2'')\<rparr>"

definition busy_shards :: "shard list" where
  "busy_shards =
     [\<lparr>shard_version = Num 4, shard_id = ''uuid-3'', shard_type = ''delta'',
       shard_operations = [Upsert jwt_fact]\<rparr>,
      \<lparr>shard_version = Num 5, shard_id = ''uuid-3'', shard_type = ''delta'',
       shard_operations = [Upsert orm_fact]\<rparr>,
      \<lparr>shard_version = Num 6, shard_id = ''uuid-3'', shard_type = ''delta'',
       shard_operations = [Delete ''global:old'']\<rparr>]"


text \<open>
  Two data gateways: the first declares a body of 300000 bytes, the second serves three
  bytes without a \<open>content-length\<close> header.
\<close>

definition two_gateways :: "string list" where
  "two_gateways = [''https://arweave.net'', ''https://g8way.io'']"

definition data_world :: "string \<Rightarrow> data_http" where
  "data_world url =
     (if url = ''https://arweave.net/tx-9''
      then DataResponse True ''200 OK'' (Some ''300000'') (Inr (replicate 7 0))
      else if url = ''https://g8way.io/tx-9''
      then DataResponse True ''200 OK'' None (Inr [1, 2, 3])
      else DataNetworkError ''fetch failed'')"


text \<open>
  Two GraphQL gateways and the transactions of the wallet \<open>Wallet-1\<close>, served in two
  pages. The first page holds versions 2 and 1 (the wallet tag of the second in another
  case, its signature padded with blanks); the second page repeats the first transaction
  and holds an identity record, a delta whose version does not parse, a conversation
  chunk and a snapshot without signature.
\<close>

definition gql_gateways :: "string list" where
  "gql_gateways = [''https://arweave.net/graphql'', ''https://g8way.io/graphql'']"

definition shard_tags :: "string \<Rightarrow> string \<Rightarrow> string \<Rightarrow> string \<Rightarrow> (string \<times> string) list" where
  "shard_tags ty wallet version signature =
     [(''App-Name'', ''sharme''), (''Wallet'', wallet), (''Type'', ty),
      (''Version'', version), (''Timestamp'', ''1767225600''), (''Signature'', signature)]"

definition page1 :: gql_json where
  "page1 =
     \<lparr>json_errors = [],
      json_edges =
        [\<lparr>edge_cursor = ''c1'',
          edge_node = \<lparr>node_id = ''tx-1'',
                       node_tags = shard_tags ''delta'' ''Wallet-1'' ''2'' ''sig-b''\<rparr>\<rparr>,
         \<lparr>edge_cursor = ''c2'',
          edge_node = \<lparr>node_id = ''tx-2'',
                       node_tags = shard_tags ''delta'' ''WALLET-1'' ''1'' '' sig-a ''\<rparr>\<rparr>],
      json_hasNextPage = True\<rparr>"

definition page2 :: gql_json where
  "page2 =
     \<lparr>json_errors = [],
      json_edges =
        [\<lparr>edge_cursor = ''c3'',
          edge_node = \<lparr>node_id = ''tx-1'',
                       node_tags = shard_tags ''delta'' ''Wallet-1'' ''2'' ''sig-b''\<rparr>\<rparr>,
         \<lparr>edge_cursor = ''c4'',
          edge_node = \<lparr>node_id = ''tx-3'',
                       node_tags = [(''App-Name'', ''sharme''), (''Wallet'', ''Wallet-1''),
                                    (''Type'', ''identity''), (''Salt'', ''00ff''),
                                    (''Signature'', ''sig-i'')]\<rparr>\<rparr>,
         \<lparr>edge_cursor = ''c5'',
          edge_node = \<lparr>node_id = ''tx-4'',
                       node_tags = shard_tags ''delta'' ''Wallet-1'' ''v3'' ''sig-c''\<rparr>\<rparr>,
         \<lparr>edge_cursor = ''c6'',
          edge_node = \<lparr>node_id = ''tx-5'',
                       node_tags = shard_tags ''conversation'' ''Wallet-1'' ''1'' ''sig-d''\<rparr>\<rparr>,
         \<lparr>edge_cursor = ''c7'',
          edge_node = \<lparr>node_id = ''tx-6'',
                       node_tags = shard_tags ''snapshot'' ''Wallet-1'' ''1'' ''  ''\<rparr>\<rparr>],
      json_hasNextPage = False\<rparr>"

text \<open>
  In \<open>paged_world\<close> the first gateway is unreachable and the second serves the two
  pages. In \<open>errors_world\<close> the first gateway answers 200 with a GraphQL \<open>errors\<close>
  array and the second would serve the pages.
\<close>

definition paged_world :: "nat \<Rightarrow> string option \<Rightarrow> string \<Rightarrow> gql_http" where
  "paged_world p after endpoint =
     (if endpoint = ''https://g8way.io/graphql''
      then (if after = None then GqlResponse True ''200 OK'' (Inr page1)
            else if after = Some ''c2'' then GqlResponse True ''200 OK'' (Inr page2)
            else GqlResponse False ''400 Bad Request'' (Inl ''no body''))
      else GqlNetworkError ''fetch failed'')"

definition errors_json :: gql_json where
  "errors_json =
     \<lparr>json_errors = [Some ''rate limited''], json_edges = [], json_hasNextPage = False\<rparr>"

definition errors_world :: "nat \<Rightarrow> string option \<Rightarrow> string \<Rightarrow> gql_http" where
  "errors_world p after endpoint =
     (if endpoint = ''https://arweave.net/graphql''
      then GqlResponse True ''200 OK'' (Inr errors_json)
      else paged_world p after endpoint)"

definition identity_shard :: ShardInfo where
  "identity_shard =
     \<lparr>si_txId = ''tx-3'', si_version = 0, si_type = ''identity'', si_timestamp = [],
      si_signature = Some ''sig-i'', si_wallet = ''Wallet-1''\<rparr>"

definition version1_shard :: ShardInfo where
  "version1_shard =
     \<lparr>si_txId = ''tx-2'', si_version = 1, si_type = ''delta'', si_timestamp = ''1767225600'',
      si_signature = Some ''sig-a'', si_wallet = ''WALLET-1''\<rparr>"

definition version2_shard :: ShardInfo where
  "version2_shard =
     \<lparr>si_txId = ''tx-1'', si_version = 2, si_type = ''delta'', si_timestamp = ''1767225600'',
      si_signature = Some ''sig-b'', si_wallet = ''Wallet-1''\<rparr>"

definition expected_shards :: "ShardInfo list" where
  "expected_shards = [identity_shard, version1_shard, version2_shard]"


text \<open>
  A world for \<open>syncCommand\<close>: the token of share \<open>share-1\<close> names transaction
  \<open>tx-9\<close>, which the first data gateway serves, and the payload decrypts to \<open>chat\<close>.
\<close>

definition share_world :: sync_env where
  "share_world =
     \<lparr>decodeToken =
        (\<lambda>t. if t = ''sharme://share/abc''
              then Inr \<lparr>tok_shareId = ''share-1'', tok_key = replicate 32 7,
                        tok_txId = Some ''tx-9''\<rparr>
              else Inl ''Invalid share token format.''),
      data_endpoints = two_gateways,
      data_fetch = data_world,
      queryConversationShare = (\<lambda>sid. Inr None),
      verifySignature = (\<lambda>bytes sg wallet. False),
      decryptAndParse =
        (\<lambda>bytes key. Some \<lparr>payload_v = 1, payload_conversation = Some chat,
                             payload_well_typed = True\<rparr>),
      clock_now = ''2026-03-01T00:00:00.000Z''\<rparr>"

definition imported_store :: db where
  "imported_store =
     store0\<lparr>shared_conversation_imports :=
              [\<lparr>imp_share_id = ''share-1'', imp_tx_id = ''tx-9'', imp_conversation_id = ''c-1'',
                imp_client = ''cursor'', imp_project = ''demo'', imp_message_count = 1,
                imp_imported_at = ''2026-03-01T00:00:00.000Z'', imp_payload = chat\<rparr>]\<rparr>"


text \<open>
  An engine that runs the first statement of a call and reports the database locked at
  the second, and one that runs every statement.
\<close>

definition locked_at_second :: "nat \<Rightarrow> string option" where
  "locked_at_second i = (if i = 1 then Some ''database is locked'' else None)"

definition engine_ok :: "nat \<Rightarrow> string option" where
  "engine_ok i = None"

text \<open>
  A \<open>content-length\<close> of four hundred digits, and a gateway that sends it with a body
  of three bytes.
\<close>

definition huge_length :: string where
  "huge_length = CHR ''9'' # replicate 399 (CHR ''9'')"

definition huge_header_world :: "string \<Rightarrow> data_http" where
  "huge_header_world url =
     (if url = ''https://arweave.net/tx-9''
      then DataResponse True ''200 OK'' (Some huge_length) (Inr [1, 2, 3])
      else DataNetworkError ''fetch failed'')"

text \<open>
  The world of \<open>share_world\<close> with the network down: no gateway answers, and the
  lookup by share id fails with the aggregated error.
\<close>

definition offline_world :: sync_env where
  "offline_world =
     share_world\<lparr>data_fetch := (\<lambda>url. DataNetworkError ''fetch failed''),
                 queryConversationShare :=
                   (\<lambda>sid. Inl ''Arweave GraphQL request failed across all gateways: https://arweave.net/graphql: fetch failed | https://g8way.io/graphql: fetch failed'')\<rparr>"


section \<open>Properties of the local store\<close>

lemma find_Some_list_ex: "find P xs = Some x \<Longrightarrow> list_ex P xs"
  by (auto simp: find_Some_iff list_ex_iff)

lemma find_map_update_row:
  "find (\<lambda>r. row_key r = k) rs = Some r \<Longrightarrow>
   find (\<lambda>r. row_key r = k) (map (\<lambda>r. if row_key r = k then update_row f r else r) rs)
     = Some (update_row f r)"
  by (induction rs) (auto simp: update_row_def)

lemma find_append_new_row:
  "\<not> list_ex (\<lambda>r. row_key r = fact_key f) rs \<Longrightarrow>
   find (\<lambda>r. row_key r = fact_key f) (rs @ [new_row f]) = Some (new_row f)"
  by (induction rs) (auto simp: new_row_def)

lemma filter_other_keys_map_update:
  "filter (\<lambda>r. row_key r \<noteq> k) (map (\<lambda>r. if row_key r = k then update_row f r else r) rs)
     = filter (\<lambda>r. row_key r \<noteq> k) rs"
  by (induction rs) (auto simp: update_row_def)

lemma insert_statement_effect:
  assumes "\<not> list_ex (\<lambda>r. row_key r \<noteq> fact_key f \<and> row_id r = fact_id f) (facts d)"
  shows "\<exists>d1. insert_fact_on_conflict_update d f = Inr d1
           \<and> (\<exists>r. find (\<lambda>r. row_key r = fact_key f) (facts d1) = Some r
                 \<and> row_dirty r = 1 \<and> row_id r = fact_id f \<and> row_scope r = fact_scope f
                 \<and> row_value r = fact_value f \<and> row_tags r = fact_tags f
                 \<and> row_confidence r = fact_confidence f
                 \<and> row_source_session r = fact_source_session f
                 \<and> row_last_confirmed r = fact_last_confirmed f
                 \<and> row_access_count r = fact_access_count f
                 \<and> (\<not> list_ex (\<lambda>r. row_key r = fact_key f) (facts d) \<longrightarrow>
                      row_created r = fact_created f))
           \<and> filter (\<lambda>r. row_key r \<noteq> fact_key f) (facts d1)
               = filter (\<lambda>r. row_key r \<noteq> fact_key f) (facts d)
           \<and> pending_deletes d1 = pending_deletes d"
proof (cases "list_ex (\<lambda>r. row_key r = fact_key f) (facts d)")
  case True
  then obtain r where r: "find (\<lambda>r. row_key r = fact_key f) (facts d) = Some r"
    by (cases "find (\<lambda>r. row_key r = fact_key f) (facts d)")
       (auto simp: find_None_iff list_ex_iff)
  have up: "insert_fact_on_conflict_update d f =
      Inr (d\<lparr>facts := map (\<lambda>r. if row_key r = fact_key f then update_row f r else r)
                          (facts d)\<rparr>)"
    using assms True by (simp add: insert_fact_on_conflict_update_def)
  show ?thesis
    using True find_map_update_row [OF r, of f]
    by (simp add: up filter_other_keys_map_update update_row_def)
next
  case False
  have up: "insert_fact_on_conflict_update d f = Inr (d\<lparr>facts := facts d @ [new_row f]\<rparr>)"
    using assms False by (simp add: insert_fact_on_conflict_update_def)
  show ?thesis
    using False find_append_new_row [OF False]
    by (simp add: up list_ex_iff new_row_def)
qed

text \<open>
  C4, as amended. Let the id of the fact not be held by a stored row with a different
  key. When the engine runs both statements, \<open>upsertFact\<close> succeeds: the row with the
  fact's key is inserted or replaced and ends with \<open>dirty = 1\<close> and the fact's columns
  (and the fact's \<open>created\<close> when the row is new), the rows with other keys are
  untouched, and no \<open>pending_deletes\<close> row with that key is left while the other
  tombstones stay. The two changes are not one transaction: when the second statement
  throws, the call throws with the row upserted as before and \<open>pending_deletes\<close> as it
  was. When the id of the fact is held by a row with a different key, the first statement
  fails on the primary key and nothing is changed; nor is anything changed when the
  engine refuses the first statement.
\<close>

theorem upsertFact_two_statements:
  "(engine 0 = None \<and> engine 1 = None
      \<and> \<not> list_ex (\<lambda>r. row_key r \<noteq> fact_key f \<and> row_id r = fact_id f) (facts d) \<longrightarrow>
      fst (upsertFact_run engine d f) = None
    \<and> (\<exists>r. find (\<lambda>r. row_key r = fact_key f) (facts (snd (upsertFact_run engine d f))) = Some r
          \<and> row_dirty r = 1 \<and> row_id r = fact_id f \<and> row_scope r = fact_scope f
          \<and> row_value r = fact_value f \<and> row_tags r = fact_tags f
          \<and> row_confidence r = fact_confidence f
          \<and> row_source_session r = fact_source_session f
          \<and> row_last_confirmed r = fact_last_confirmed f
          \<and> row_access_count r = fact_access_count f
          \<and> (\<not> list_ex (\<lambda>r. row_key r = fact_key f) (facts d) \<longrightarrow>
               row_created r = fact_created f))
    \<and> filter (\<lambda>r. row_key r \<noteq> fact_key f) (facts (snd (upsertFact_run engine d f)))
        = filter (\<lambda>r. row_key r \<noteq> fact_key f) (facts d)
    \<and> \<not> list_ex (\<lambda>p. fst p = fact_key f) (pending_deletes (snd (upsertFact_run engine d f)))
    \<and> filter (\<lambda>p. fst p \<noteq> fact_key f) (pending_deletes (snd (upsertFact_run engine d f)))
        = filter (\<lambda>p. fst p \<noteq> fact_key f) (pending_deletes d)
    \<and> upsertFact_run engine d f = (None, snd (upsertFact d f)))
   \<and> (\<forall>msg. engine 0 = None \<and> engine 1 = Some msg
      \<and> \<not> list_ex (\<lambda>r. row_key r \<noteq> fact_key f \<and> row_id r = fact_id f) (facts d) \<longrightarrow>
      fst (upsertFact_run engine d f) = Some (Engine msg)
    \<and> (\<exists>r. find (\<lambda>r. row_key r = fact_key f) (facts (snd (upsertFact_run engine d f))) = Some r
          \<and> row_dirty r = 1 \<and> row_id r = fact_id f \<and> row_value r = fact_value f)
    \<and> pending_deletes (snd (upsertFact_run engine d f)) = pending_deletes d)
   \<and> (engine 0 = None
      \<and> list_ex (\<lambda>r. row_key r \<noteq> fact_key f \<and> row_id r = fact_id f) (facts d) \<longrightarrow>
      upsertFact_run engine d f = (Some (Constraint (UniqueConstraintFailed ''facts.id'')), d))
   \<and> (\<forall>msg. engine 0 = Some msg \<longrightarrow> upsertFact_run engine d f = (Some (Engine msg), d))"
  (is "?both \<and> ?second \<and> ?clash \<and> ?first")
proof (intro conjI)
  show ?first
    by (simp add: upsertFact_run_def)
  show ?clash
    by (simp add: upsertFact_run_def insert_fact_on_conflict_update_def)
  show ?second
  proof (intro allI impI)
    fix msg
    assume h: "engine 0 = None \<and> engine 1 = Some msg
      \<and> \<not> list_ex (\<lambda>r. row_key r \<noteq> fact_key f \<and> row_id r = fact_id f) (facts d)"
    then obtain d1 where d1: "insert_fact_on_conflict_update d f = Inr d1"
      and row: "\<exists>r. find (\<lambda>r. row_key r = fact_key f) (facts d1) = Some r
                 \<and> row_dirty r = 1 \<and> row_id r = fact_id f \<and> row_value r = fact_value f"
      and pd: "pending_deletes d1 = pending_deletes d"
      using insert_statement_effect [of f d] by blast
    have "upsertFact_run engine d f = (Some (Engine msg), d1)"
      using h d1 by (simp add: upsertFact_run_def)
    with row pd show "fst (upsertFact_run engine d f) = Some (Engine msg)
      \<and> (\<exists>r. find (\<lambda>r. row_key r = fact_key f) (facts (snd (upsertFact_run engine d f))) = Some r
            \<and> row_dirty r = 1 \<and> row_id r = fact_id f \<and> row_value r = fact_value f)
      \<and> pending_deletes (snd (upsertFact_run engine d f)) = pending_deletes d"
      by simp
  qed
  show ?both
  proof (rule impI)
    assume h: "engine 0 = None \<and> engine 1 = None
      \<and> \<not> list_ex (\<lambda>r. row_key r \<noteq> fact_key f \<and> row_id r = fact_id f) (facts d)"
    then obtain d1 where d1: "insert_fact_on_conflict_update d f = Inr d1"
      and row: "\<exists>r. find (\<lambda>r. row_key r = fact_key f) (facts d1) = Some r
                 \<and> row_dirty r = 1 \<and> row_id r = fact_id f \<and> row_scope r = fact_scope f
                 \<and> row_value r = fact_value f \<and> row_tags r = fact_tags f
                 \<and> row_confidence r = fact_confidence f
                 \<and> row_source_session r = fact_source_session f
                 \<and> row_last_confirmed r = fact_last_confirmed f
                 \<and> row_access_count r = fact_access_count f
                 \<and> (\<not> list_ex (\<lambda>r. row_key r = fact_key f) (facts d) \<longrightarrow>
                      row_created r = fact_created f)"
      and others: "filter (\<lambda>r. row_key r \<noteq> fact_key f) (facts d1)
               = filter (\<lambda>r. row_key r \<noteq> fact_key f) (facts d)"
      and pd: "pending_deletes d1 = pending_deletes d"
      using insert_statement_effect [of f d] by blast
    have run: "upsertFact_run engine d f = (None, delete_pending d1 (fact_key f))"
      using h d1 by (simp add: upsertFact_run_def)
    have same: "snd (upsertFact d f) = delete_pending d1 (fact_key f)"
      using d1 by (simp add: upsertFact_def)
    show "fst (upsertFact_run engine d f) = None
    \<and> (\<exists>r. find (\<lambda>r. row_key r = fact_key f) (facts (snd (upsertFact_run engine d f))) = Some r
          \<and> row_dirty r = 1 \<and> row_id r = fact_id f \<and> row_scope r = fact_scope f
          \<and> row_value r = fact_value f \<and> row_tags r = fact_tags f
          \<and> row_confidence r = fact_confidence f
          \<and> row_source_session r = fact_source_session f
          \<and> row_last_confirmed r = fact_last_confirmed f
          \<and> row_access_count r = fact_access_count f
          \<and> (\<not> list_ex (\<lambda>r. row_key r = fact_key f) (facts d) \<longrightarrow>
               row_created r = fact_created f))
    \<and> filter (\<lambda>r. row_key r \<noteq> fact_key f) (facts (snd (upsertFact_run engine d f)))
        = filter (\<lambda>r. row_key r \<noteq> fact_key f) (facts d)
    \<and> \<not> list_ex (\<lambda>p. fst p = fact_key f) (pending_deletes (snd (upsertFact_run engine d f)))
    \<and> filter (\<lambda>p. fst p \<noteq> fact_key f) (pending_deletes (snd (upsertFact_run engine d f)))
        = filter (\<lambda>p. fst p \<noteq> fact_key f) (pending_deletes d)
    \<and> upsertFact_run engine d f = (None, snd (upsertFact d f))"
      using row others pd
      by (simp add: run same delete_pending_def list_ex_iff)
  qed
qed

lemma store0_orm_first_statement:
  "insert_fact_on_conflict_update store0 orm_fact
     = Inr (store0\<lparr>facts := [stored_row, new_row orm_fact]\<rparr>)"
  by (simp add: insert_fact_on_conflict_update_def store0_def stored_row_def orm_fact_def)

lemma store0_clash:
  "insert_fact_on_conflict_update store0 clashing_fact
     = Inl (UniqueConstraintFailed ''facts.id'')"
  by (simp add: insert_fact_on_conflict_update_def store0_def stored_row_def orm_fact_def
        clashing_fact_def)

theorem upsertFact_two_statements_witness:
  "upsertFact_run engine_ok store0 orm_fact =
     (None, store0\<lparr>facts := [stored_row, new_row orm_fact], pending_deletes := []\<rparr>)
   \<and> upsertFact_run locked_at_second store0 orm_fact =
       (Some (Engine ''database is locked''),
        store0\<lparr>facts := [stored_row, new_row orm_fact]\<rparr>)
   \<and> pending_deletes (snd (upsertFact_run locked_at_second store0 orm_fact))
       = pending_deletes store0
   \<and> upsertFact_run engine_ok store0 clashing_fact =
       (Some (Constraint (UniqueConstraintFailed ''facts.id'')), store0)"
proof -
  have free: "\<not> list_ex (\<lambda>r. row_key r \<noteq> fact_key orm_fact \<and> row_id r = fact_id orm_fact)
                  (facts store0)"
    by (simp add: store0_def stored_row_def orm_fact_def)
  have e: "locked_at_second 0 = None" "locked_at_second 1 = Some ''database is locked''"
    by (simp_all add: locked_at_second_def)
  from upsertFact_two_statements [of locked_at_second orm_fact store0] free e
  have pd: "pending_deletes (snd (upsertFact_run locked_at_second store0 orm_fact))
       = pending_deletes store0"
    by blast
  have a: "upsertFact_run engine_ok store0 orm_fact =
     (None, store0\<lparr>facts := [stored_row, new_row orm_fact], pending_deletes := []\<rparr>)"
    by (simp add: upsertFact_run_def engine_ok_def store0_orm_first_statement delete_pending_def)
       (simp add: store0_def orm_fact_def)
  have b: "upsertFact_run locked_at_second store0 orm_fact =
       (Some (Engine ''database is locked''),
        store0\<lparr>facts := [stored_row, new_row orm_fact]\<rparr>)"
    by (simp add: upsertFact_run_def locked_at_second_def store0_orm_first_statement)
  have c: "upsertFact_run engine_ok store0 clashing_fact =
       (Some (Constraint (UniqueConstraintFailed ''facts.id'')), store0)"
    by (simp add: upsertFact_run_def engine_ok_def store0_clash)
  from a b c pd show ?thesis by simp
qed

text \<open>
  C4 as stated fails in two ways. For \<open>clashing_fact\<close>, a fact for the new key
  \<open>global:database:orm\<close> with the id of the stored row, the call throws: no row with
  that key is stored and the tombstone of that key is still there. For \<open>orm_fact\<close>,
  with the database locked at the second statement, the call throws after the first
  statement is committed: the row is stored, dirty, and the tombstone of its key is still
  there, which no single transaction leaves behind.
\<close>

theorem upsertFact_not_atomic_counterexample:
  "fst (upsertFact_run engine_ok store0 clashing_fact)
     = Some (Constraint (UniqueConstraintFailed ''facts.id''))
   \<and> find (\<lambda>r. row_key r = fact_key clashing_fact)
        (facts (snd (upsertFact_run engine_ok store0 clashing_fact))) = None
   \<and> list_ex (\<lambda>p. fst p = fact_key clashing_fact)
        (pending_deletes (snd (upsertFact_run engine_ok store0 clashing_fact)))
   \<and> fst (upsertFact_run locked_at_second store0 orm_fact) = Some (Engine ''database is locked'')
   \<and> find (\<lambda>r. row_key r = fact_key orm_fact)
        (facts (snd (upsertFact_run locked_at_second store0 orm_fact))) = Some (new_row orm_fact)
   \<and> row_dirty (new_row orm_fact) = 1
   \<and> list_ex (\<lambda>p. fst p = fact_key orm_fact)
        (pending_deletes (snd (upsertFact_run locked_at_second store0 orm_fact)))"
proof -
  have b: "upsertFact_run locked_at_second store0 orm_fact =
       (Some (Engine ''database is locked''),
        store0\<lparr>facts := [stored_row, new_row orm_fact]\<rparr>)"
    by (simp add: upsertFact_run_def locked_at_second_def store0_orm_first_statement)
  have c: "upsertFact_run engine_ok store0 clashing_fact =
       (Some (Constraint (UniqueConstraintFailed ''facts.id'')), store0)"
    by (simp add: upsertFact_run_def engine_ok_def store0_clash)
  show ?thesis
    by (simp add: b c)
       (simp add: store0_def stored_row_def orm_fact_def clashing_fact_def new_row_def)
qed

lemma upsertFact_other_rows:
  "filter (\<lambda>r. row_key r \<noteq> fact_key f) (facts (snd (upsertFact d f)))
     = filter (\<lambda>r. row_key r \<noteq> fact_key f) (facts d)"
  by (simp add: upsertFact_def insert_fact_on_conflict_update_def delete_pending_def
        filter_other_keys_map_update new_row_def)

lemma other_writers_keep_created:
  "map (\<lambda>r. (row_key r, row_created r)) (facts (clearDirtyState d))
     = map (\<lambda>r. (row_key r, row_created r)) (facts d)"
  "map (\<lambda>r. (row_key r, row_created r)) (facts (incrementAccessCount d k))
     = map (\<lambda>r. (row_key r, row_created r)) (facts d)"
  "facts (deleteFact d k t) = filter (\<lambda>r. row_key r \<noteq> k) (facts d)"
  "facts (setMeta d k v) = facts d"
  by (simp_all add: clearDirtyState_def incrementAccessCount_def deleteFact_def setMeta_def
        Let_def)

text \<open>
  C5. When the key already has a row, \<open>upsertFact\<close> leaves a row for that key whose
  \<open>created\<close> (and \<open>key\<close>) are those of the stored row. When the call succeeds the
  other nine columns are the new fact's, with \<open>dirty = 1\<close>; when it fails the row is
  the stored one. The rows with other keys are untouched. No other writer of the store
  changes a \<open>created\<close> either: \<open>clearDirtyState\<close> and \<open>incrementAccessCount\<close> keep
  the key and \<open>created\<close> of every row, \<open>deleteFact\<close> removes the rows of its key
  and keeps the others as they are, \<open>setMeta\<close> leaves the table alone.
\<close>

theorem upsertFact_keeps_created:
  assumes "find (\<lambda>r. row_key r = fact_key f) (facts d) = Some r"
  shows "(\<exists>r'. find (\<lambda>r. row_key r = fact_key f) (facts (snd (upsertFact d f))) = Some r'
           \<and> row_created r' = row_created r \<and> row_key r' = row_key r
           \<and> (fst (upsertFact d f) = None \<longrightarrow>
                row_id r' = fact_id f \<and> row_scope r' = fact_scope f
              \<and> row_value r' = fact_value f \<and> row_tags r' = fact_tags f
              \<and> row_confidence r' = fact_confidence f
              \<and> row_source_session r' = fact_source_session f
              \<and> row_last_confirmed r' = fact_last_confirmed f
              \<and> row_access_count r' = fact_access_count f \<and> row_dirty r' = 1)
           \<and> (fst (upsertFact d f) \<noteq> None \<longrightarrow> r' = r))
       \<and> filter (\<lambda>r. row_key r \<noteq> fact_key f) (facts (snd (upsertFact d f)))
           = filter (\<lambda>r. row_key r \<noteq> fact_key f) (facts d)
       \<and> map (\<lambda>r. (row_key r, row_created r)) (facts (clearDirtyState d))
           = map (\<lambda>r. (row_key r, row_created r)) (facts d)
       \<and> map (\<lambda>r. (row_key r, row_created r)) (facts (incrementAccessCount d k))
           = map (\<lambda>r. (row_key r, row_created r)) (facts d)
       \<and> facts (deleteFact d k t) = filter (\<lambda>r. row_key r \<noteq> k) (facts d)
       \<and> facts (setMeta d k v) = facts d"
proof -
  have row: "\<exists>r'. find (\<lambda>r. row_key r = fact_key f) (facts (snd (upsertFact d f))) = Some r'
           \<and> row_created r' = row_created r \<and> row_key r' = row_key r
           \<and> (fst (upsertFact d f) = None \<longrightarrow>
                row_id r' = fact_id f \<and> row_scope r' = fact_scope f
              \<and> row_value r' = fact_value f \<and> row_tags r' = fact_tags f
              \<and> row_confidence r' = fact_confidence f
              \<and> row_source_session r' = fact_source_session f
              \<and> row_last_confirmed r' = fact_last_confirmed f
              \<and> row_access_count r' = fact_access_count f \<and> row_dirty r' = 1)
           \<and> (fst (upsertFact d f) \<noteq> None \<longrightarrow> r' = r)"
  proof (cases "insert_fact_on_conflict_update d f")
    case (Inl e)
    then show ?thesis using assms by (simp add: upsertFact_def)
  next
    case (Inr d1)
    have ex: "list_ex (\<lambda>r. row_key r = fact_key f) (facts d)"
      using assms by (rule find_Some_list_ex)
    from Inr ex have d1:
      "facts d1 = map (\<lambda>r. if row_key r = fact_key f then update_row f r else r) (facts d)"
      by (auto simp: insert_fact_on_conflict_update_def split: if_splits)
    have "find (\<lambda>r. row_key r = fact_key f) (facts d1) = Some (update_row f r)"
      unfolding d1 using assms by (rule find_map_update_row)
    then show ?thesis using Inr
      by (simp add: upsertFact_def delete_pending_def update_row_def)
  qed
  from row upsertFact_other_rows [of f d] other_writers_keep_created
  show ?thesis by blast
qed

theorem upsertFact_keeps_created_witness:
  "find (\<lambda>r. row_key r = fact_key jwt_fact) (facts store0) = Some stored_row
   \<and> fst (upsertFact store0 jwt_fact) = None
   \<and> (\<exists>r'. find (\<lambda>r. row_key r = fact_key jwt_fact) (facts (snd (upsertFact store0 jwt_fact)))
              = Some r'
          \<and> row_created r' = ''2026-01-01T00:00:00.000Z'' \<and> row_value r' = ''JWT''
          \<and> row_dirty r' = 1)"
proof -
  have h: "find (\<lambda>r. row_key r = fact_key jwt_fact) (facts store0) = Some stored_row"
    by (simp add: store0_def stored_row_def jwt_fact_def)
  have ok: "fst (upsertFact store0 jwt_fact) = None"
    by (simp add: upsertFact_def insert_fact_on_conflict_update_def
          store0_def stored_row_def jwt_fact_def)
  from upsertFact_keeps_created [OF h]
  obtain r' where
    "find (\<lambda>r. row_key r = fact_key jwt_fact) (facts (snd (upsertFact store0 jwt_fact)))
       = Some r'"
    "row_created r' = row_created stored_row"
    "fst (upsertFact store0 jwt_fact) = None \<longrightarrow>
       row_value r' = fact_value jwt_fact \<and> row_dirty r' = 1"
    by blast
  with h ok show ?thesis
    by (auto simp: stored_row_def jwt_fact_def)
qed

text \<open>
  C6. \<open>deleteFact\<close> applied twice leaves the store that one application leaves,
  whatever the two clock readings. When no fact has the key, the store is unchanged. When
  one has, no row with the key is left in \<open>facts\<close>, the other rows stay, and
  \<open>pending_deletes\<close> holds exactly one row for the key, with the time of the call.
\<close>

theorem deleteFact_idempotent:
  "deleteFact (deleteFact d k t1) k t2 = deleteFact d k t1
   \<and> (\<not> list_ex (\<lambda>r. row_key r = k) (facts d) \<longrightarrow> deleteFact d k t1 = d)
   \<and> (list_ex (\<lambda>r. row_key r = k) (facts d) \<longrightarrow>
        facts (deleteFact d k t1) = filter (\<lambda>r. row_key r \<noteq> k) (facts d)
      \<and> \<not> list_ex (\<lambda>r. row_key r = k) (facts (deleteFact d k t1))
      \<and> pending_deletes (deleteFact d k t1)
          = filter (\<lambda>p. fst p \<noteq> k) (pending_deletes d) @ [(k, t1)]
      \<and> filter (\<lambda>p. fst p = k) (pending_deletes (deleteFact d k t1)) = [(k, t1)])"
  by (simp add: deleteFact_def Let_def list_ex_iff filter_id_conv)

theorem deleteFact_idempotent_witness:
  "list_ex (\<lambda>r. row_key r = ''global:auth:strategy'') (facts store0)
   \<and> facts (deleteFact store0 ''global:auth:strategy'' ''2026-03-01T00:00:00.000Z'') = []
   \<and> deleteFact (deleteFact store0 ''global:auth:strategy'' ''2026-03-01T00:00:00.000Z'')
        ''global:auth:strategy'' ''2026-03-02T00:00:00.000Z''
       = deleteFact store0 ''global:auth:strategy'' ''2026-03-01T00:00:00.000Z''
   \<and> \<not> list_ex (\<lambda>r. row_key r = ''global:none'') (facts store0)
   \<and> deleteFact store0 ''global:none'' ''2026-03-01T00:00:00.000Z'' = store0"
  using deleteFact_idempotent [of store0 "''global:auth:strategy''"
          "''2026-03-01T00:00:00.000Z''" "''2026-03-02T00:00:00.000Z''"]
        deleteFact_idempotent [of store0 "''global:none''" "''2026-03-01T00:00:00.000Z''"]
  by (simp add: store0_def stored_row_def)

text \<open>
  C10. \<open>saveSharedConversationImport\<close> is a plain insert under the primary key
  \<open>share_id\<close>: when a row with the entry's share id is stored, the call throws the
  uniqueness violation and the table is as before (the row is neither replaced nor the
  call silently ignored); when none is stored, the call appends one row. Only the test
  \<open>hasSharedConversationImport\<close> made by the caller keeps a second redemption from
  throwing.
\<close>

theorem saveSharedConversationImport_duplicate_fails:
  "(hasSharedConversationImport d (entry_shareId entry) \<longrightarrow>
      saveSharedConversationImport d entry t =
        (Some (UniqueConstraintFailed ''shared_conversation_imports.share_id''), d))
   \<and> (\<not> hasSharedConversationImport d (entry_shareId entry) \<longrightarrow>
        fst (saveSharedConversationImport d entry t) = None
      \<and> length (shared_conversation_imports (snd (saveSharedConversationImport d entry t)))
          = Suc (length (shared_conversation_imports d))
      \<and> hasSharedConversationImport (snd (saveSharedConversationImport d entry t))
          (entry_shareId entry))"
  by (simp add: saveSharedConversationImport_def hasSharedConversationImport_def)

theorem saveSharedConversationImport_duplicate_fails_witness:
  "\<not> hasSharedConversationImport store0 (entry_shareId chat_entry)
   \<and> fst (saveSharedConversationImport store0 chat_entry ''2026-03-01T00:00:00.000Z'') = None
   \<and> hasSharedConversationImport
        (snd (saveSharedConversationImport store0 chat_entry ''2026-03-01T00:00:00.000Z''))
        (entry_shareId chat_entry)
   \<and> saveSharedConversationImport
        (snd (saveSharedConversationImport store0 chat_entry ''2026-03-01T00:00:00.000Z''))
        chat_entry ''2026-03-02T00:00:00.000Z''
       = (Some (UniqueConstraintFailed ''shared_conversation_imports.share_id''),
          snd (saveSharedConversationImport store0 chat_entry ''2026-03-01T00:00:00.000Z''))"
  using saveSharedConversationImport_duplicate_fails
          [of store0 chat_entry "''2026-03-01T00:00:00.000Z''"]
        saveSharedConversationImport_duplicate_fails
          [of "snd (saveSharedConversationImport store0 chat_entry ''2026-03-01T00:00:00.000Z'')"
              chat_entry "''2026-03-02T00:00:00.000Z''"]
  by (simp add: saveSharedConversationImport_def hasSharedConversationImport_def
        store0_def chat_entry_def)


section \<open>Properties of the fact push\<close>

lemma upload_shards_first_failure:
  "k < length ss \<Longrightarrow> push (i + k) (ss ! k) = Inl e \<Longrightarrow>
   \<exists>k0 e0 calls. k0 \<le> k \<and> push (i + k0) (ss ! k0) = Inl e0
      \<and> upload_shards push i ss v = (Inl e0, calls)
      \<and> map fst calls = take (Suc k0) ss
      \<and> (\<forall>j<k0. \<exists>tx. calls ! j = (ss ! j, Inr tx))
      \<and> calls ! k0 = (ss ! k0, Inl e0)"
proof (induction ss arbitrary: i k v)
  case Nil
  then show ?case by simp
next
  case (Cons s ss)
  show ?case
  proof (cases "push i s")
    case (Inl e')
    then have "upload_shards push i (s # ss) v = (Inl e', [(s, Inl e')])" by simp
    with Inl show ?thesis by (intro exI [of _ 0] exI [of _ e']) simp
  next
    case (Inr tx)
    with Cons.prems obtain k' where k': "k = Suc k'"
      by (cases k) auto
    with Cons.prems have "k' < length ss" "push (Suc i + k') (ss ! k') = Inl e"
      by auto
    from Cons.IH [OF this, of "shard_version s"]
    obtain k0 e0 calls where h: "k0 \<le> k'" "push (Suc i + k0) (ss ! k0) = Inl e0"
      "upload_shards push (Suc i) ss (shard_version s) = (Inl e0, calls)"
      "map fst calls = take (Suc k0) ss"
      "\<forall>j<k0. \<exists>tx. calls ! j = (ss ! j, Inr tx)"
      "calls ! k0 = (ss ! k0, Inl e0)"
      by blast
    have up: "upload_shards push i (s # ss) v = (Inl e0, (s, Inr tx) # calls)"
      using Inr h(3) by simp
    have earlier: "\<forall>j<Suc k0. \<exists>tx'. ((s, Inr tx) # calls) ! j = ((s # ss) ! j, Inr tx')"
      using h(5) by (auto simp: nth_Cons split: nat.splits)
    show ?thesis
      using k' h(1,2,4,6) up earlier
      by (intro exI [of _ "Suc k0"] exI [of _ e0] exI [of _ "(s, Inr tx) # calls"]) simp
  qed
qed

lemma clean_after_clearDirtyState:
  "getDirtyFacts (setMeta (setMeta (clearDirtyState d) k1 v1) k2 v2) = []
   \<and> getPendingDeletes (setMeta (setMeta (clearDirtyState d) k1 v1) k2 v2) = []"
  by (simp add: getDirtyFacts_def getPendingDeletes_def setMeta_def clearDirtyState_def
        filter_empty_conv)

lemma syncDirtyFacts_nothing:
  "getDirtyFacts d = [] \<Longrightarrow> getPendingDeletes d = [] \<Longrightarrow>
   syncDirtyFacts env d = (d, [], NothingToPush)"
  by (simp add: syncDirtyFacts_def)

lemma syncDirtyFacts_completed_clean:
  assumes "syncDirtyFacts env d = (d1, calls, out)" and "\<forall>e. out \<noteq> SyncFailed e"
  shows "getDirtyFacts d1 = [] \<and> getPendingDeletes d1 = []"
  using assms clean_after_clearDirtyState
  by (auto simp: syncDirtyFacts_def split: if_splits sum.splits prod.splits)

lemma parseInt_0: "parseInt ''0'' = Num 0"
  by (simp add: parseInt_def isWhiteSpace_def isDigit_def digitVal_def to_number_def
        round_double_def)

lemma parseInt_3: "parseInt ''3'' = Num 3"
  by (simp add: parseInt_def isWhiteSpace_def isDigit_def digitVal_def to_number_def
        round_double_def)

lemma js_add_small:
  "js_add (Num 0) (Num 1) = Num 1" "js_add (Num 3) (Num 1) = Num 4"
  "js_add (Num 4) (Num 1) = Num 5" "js_add (Num 5) (Num 1) = Num 6"
  by (simp_all add: js_add_def to_number_def round_double_def)

lemma js_String_1: "js_String (Num 1) = ''1''"
  by (simp add: js_String_def decimal.simps digitChar_def)

lemma dirty_store_reads:
  "getDirtyFacts dirty_store = [jwt_fact]" "getPendingDeletes dirty_store = []"
  "currentVersion dirty_store = Num 0"
  by (simp_all add: getDirtyFacts_def getPendingDeletes_def currentVersion_def getMeta_def
        dirty_store_def new_row_def rowToFact_def jwt_fact_def parseInt_0)

lemma busy_store_reads:
  "getDirtyFacts busy_store = [jwt_fact, orm_fact]"
  "getPendingDeletes busy_store = [''global:old'']"
  "currentVersion busy_store = Num 3"
  by (simp_all add: getDirtyFacts_def getPendingDeletes_def currentVersion_def getMeta_def
        busy_store_def new_row_def rowToFact_def jwt_fact_def orm_fact_def parseInt_3)

lemma busy_store_plan: "planned_shards second_upload_fails busy_store = Inr busy_shards"
  by (simp add: planned_shards_def push_operations_def busy_store_reads js_add_small
        second_upload_fails_def factToUpsertOp_def busy_shards_def)

lemma dirty_store_plan:
  "planned_shards env dirty_store =
     createChunkedShards env [Upsert jwt_fact] (Num 1) (uuidv4 env)"
  by (simp add: planned_shards_def push_operations_def dirty_store_reads js_add_small
        factToUpsertOp_def)

lemma busy_store_run:
  "syncDirtyFacts second_upload_fails busy_store =
     (busy_store,
      [(busy_shards ! 0, Inr ''tx-2''), (busy_shards ! 1, Inl ''upload failed'')],
      SyncFailed ''upload failed'')"
  by (simp add: syncDirtyFacts_def busy_store_plan busy_store_reads)
     (simp add: busy_shards_def second_upload_fails_def)

text \<open>
  C1. In a tick that has something to push, let the upload of some shard of the batch
  fail. Then the first failing upload, at a position \<open>k0\<close> not after it, ends the tick:
  the calls of \<open>pushShard\<close> are exactly those for the shards up to \<open>k0\<close> (the earlier
  ones went through, none after \<open>k0\<close> is made), the outcome is the failure, and the
  store returned is the store the tick started from, so dirty flags, pending deletes,
  \<open>current_version\<close> and \<open>last_pushed_version\<close> are as before and the next tick reads
  the same operations.
\<close>

theorem push_aborts_on_upload_failure:
  assumes "getDirtyFacts d \<noteq> [] \<or> getPendingDeletes d \<noteq> []"
    and "planned_shards env d = Inr shards"
    and "k < length shards"
    and "pushShard env k (shards ! k) = Inl e"
  shows "\<exists>k0 e0 calls. k0 \<le> k \<and> pushShard env k0 (shards ! k0) = Inl e0
           \<and> syncDirtyFacts env d = (d, calls, SyncFailed e0)
           \<and> map fst calls = take (Suc k0) shards
           \<and> (\<forall>j<k0. \<exists>tx. calls ! j = (shards ! j, Inr tx))
           \<and> calls ! k0 = (shards ! k0, Inl e0)
           \<and> getDirtyFacts (fst (syncDirtyFacts env d)) = getDirtyFacts d
           \<and> getPendingDeletes (fst (syncDirtyFacts env d)) = getPendingDeletes d
           \<and> getMeta (fst (syncDirtyFacts env d)) ''current_version''
                = getMeta d ''current_version''
           \<and> getMeta (fst (syncDirtyFacts env d)) ''last_pushed_version''
                = getMeta d ''last_pushed_version''
           \<and> push_operations (fst (syncDirtyFacts env d)) = push_operations d"
proof -
  from upload_shards_first_failure [of k shards "pushShard env" 0 e "currentVersion d"]
    assms(3,4)
  obtain k0 e0 calls where h: "k0 \<le> k" "pushShard env k0 (shards ! k0) = Inl e0"
      "upload_shards (pushShard env) 0 shards (currentVersion d) = (Inl e0, calls)"
      "map fst calls = take (Suc k0) shards"
      "\<forall>j<k0. \<exists>tx. calls ! j = (shards ! j, Inr tx)"
      "calls ! k0 = (shards ! k0, Inl e0)"
    by auto
  have "syncDirtyFacts env d = (d, calls, SyncFailed e0)"
    using assms(1,2) h(3) by (auto simp: syncDirtyFacts_def)
  with h show ?thesis by auto
qed

theorem push_aborts_on_upload_failure_witness:
  "getDirtyFacts busy_store = [jwt_fact, orm_fact]
   \<and> getPendingDeletes busy_store = [''global:old'']
   \<and> planned_shards second_upload_fails busy_store = Inr busy_shards
   \<and> 1 < length busy_shards
   \<and> pushShard second_upload_fails 1 (busy_shards ! 1) = Inl ''upload failed''
   \<and> syncDirtyFacts second_upload_fails busy_store =
       (busy_store,
        [(busy_shards ! 0, Inr ''tx-2''), (busy_shards ! 1, Inl ''upload failed'')],
        SyncFailed ''upload failed'')"
proof -
  have h1: "getDirtyFacts busy_store \<noteq> [] \<or> getPendingDeletes busy_store \<noteq> []"
    by (simp add: busy_store_reads)
  have h3: "1 < length busy_shards"
    by (simp add: busy_shards_def)
  have h4: "pushShard second_upload_fails 1 (busy_shards ! 1) = Inl ''upload failed''"
    by (simp add: second_upload_fails_def)
  show ?thesis
    using busy_store_reads busy_store_plan h3 h4 busy_store_run
      push_aborts_on_upload_failure [OF h1 busy_store_plan h3 h4]
    by simp
qed

lemma gateway_down_run:
  "syncDirtyFacts gateway_down dirty_store =
     (dirty_store,
      [(\<lparr>shard_version = Num 1, shard_id = ''uuid-1'', shard_type = ''delta'',
         shard_operations = [Upsert jwt_fact]\<rparr>, Inl ''upload failed'')],
      SyncFailed ''upload failed'')"
  by (simp add: syncDirtyFacts_def dirty_store_plan dirty_store_reads)
     (simp add: gateway_down_def one_shard_def)

lemma gateway_up_run:
  "syncDirtyFacts gateway_up dirty_store =
     (dirty_store\<lparr>facts := [(new_row jwt_fact)\<lparr>row_dirty := 0\<rparr>],
                  meta := [(''current_version'', ''1''), (''last_pushed_version'', ''1'')]\<rparr>,
      [(\<lparr>shard_version = Num 1, shard_id = ''uuid-2'', shard_type = ''delta'',
         shard_operations = [Upsert jwt_fact]\<rparr>, Inr ''tx-1'')],
      Pushed (Num 1))"
  by (simp add: syncDirtyFacts_def dirty_store_plan dirty_store_reads)
     (simp add: gateway_up_def one_shard_def js_String_1 setMeta_def clearDirtyState_def
        dirty_store_def)

text \<open>
  C3, as amended. A tick that finds no dirty fact and no pending delete makes no upload
  and returns the store as it was, \<open>current_version\<close> and \<open>last_pushed_version\<close>
  included. Of two consecutive ticks with no mutation in between, in whatever world each
  runs, the second makes no upload and changes nothing provided the first did not abort
  (it pushed everything, or had nothing to push).
\<close>

theorem push_idempotent_after_completed_push:
  "(getDirtyFacts d = [] \<and> getPendingDeletes d = [] \<longrightarrow>
      syncDirtyFacts env d = (d, [], NothingToPush))
   \<and> (\<forall>d1 calls out.
         syncDirtyFacts env d = (d1, calls, out) \<and> (\<forall>e. out \<noteq> SyncFailed e) \<longrightarrow>
         syncDirtyFacts env' d1 = (d1, [], NothingToPush))"
  using syncDirtyFacts_nothing syncDirtyFacts_completed_clean by blast

theorem push_idempotent_after_completed_push_witness:
  "syncDirtyFacts gateway_up dirty_store =
     (dirty_store\<lparr>facts := [(new_row jwt_fact)\<lparr>row_dirty := 0\<rparr>],
                  meta := [(''current_version'', ''1''), (''last_pushed_version'', ''1'')]\<rparr>,
      [(\<lparr>shard_version = Num 1, shard_id = ''uuid-2'', shard_type = ''delta'',
         shard_operations = [Upsert jwt_fact]\<rparr>, Inr ''tx-1'')],
      Pushed (Num 1))
   \<and> (\<forall>e. Pushed (Num 1) \<noteq> SyncFailed e)
   \<and> syncDirtyFacts gateway_up
        (dirty_store\<lparr>facts := [(new_row jwt_fact)\<lparr>row_dirty := 0\<rparr>],
                     meta := [(''current_version'', ''1''), (''last_pushed_version'', ''1'')]\<rparr>)
       = (dirty_store\<lparr>facts := [(new_row jwt_fact)\<lparr>row_dirty := 0\<rparr>],
                      meta := [(''current_version'', ''1''), (''last_pushed_version'', ''1'')]\<rparr>,
          [], NothingToPush)"
  using gateway_up_run push_idempotent_after_completed_push [of dirty_store gateway_up gateway_up]
  by simp

text \<open>
  C3 as stated fails when the first of the two ticks aborts. With the uploads failing in
  the first tick and going through in the second, and no mutation in between, the second
  tick uploads a shard and advances \<open>current_version\<close> and \<open>last_pushed_version\<close>.
  And in one and the same world, where the second upload of a batch fails, two
  consecutive ticks both upload the first shard of the batch.
\<close>

theorem retry_after_aborted_push_counterexample:
  "syncDirtyFacts gateway_down dirty_store =
     (dirty_store,
      [(\<lparr>shard_version = Num 1, shard_id = ''uuid-1'', shard_type = ''delta'',
         shard_operations = [Upsert jwt_fact]\<rparr>, Inl ''upload failed'')],
      SyncFailed ''upload failed'')
   \<and> syncDirtyFacts gateway_up (fst (syncDirtyFacts gateway_down dirty_store)) =
     (dirty_store\<lparr>facts := [(new_row jwt_fact)\<lparr>row_dirty := 0\<rparr>],
                  meta := [(''current_version'', ''1''), (''last_pushed_version'', ''1'')]\<rparr>,
      [(\<lparr>shard_version = Num 1, shard_id = ''uuid-2'', shard_type = ''delta'',
         shard_operations = [Upsert jwt_fact]\<rparr>, Inr ''tx-1'')],
      Pushed (Num 1))
   \<and> syncDirtyFacts second_upload_fails busy_store =
     (busy_store,
      [(busy_shards ! 0, Inr ''tx-2''), (busy_shards ! 1, Inl ''upload failed'')],
      SyncFailed ''upload failed'')
   \<and> syncDirtyFacts second_upload_fails
        (fst (syncDirtyFacts second_upload_fails busy_store)) =
     (busy_store,
      [(busy_shards ! 0, Inr ''tx-2''), (busy_shards ! 1, Inl ''upload failed'')],
      SyncFailed ''upload failed'')"
  by (simp add: gateway_down_run gateway_up_run busy_store_run)


section \<open>Properties of the archive adapter\<close>

lemma parseInt_Nil: "parseInt [] = NaN"
  by (simp add: parseInt_def)

lemma js_le_not_gt: "m \<noteq> NaN \<Longrightarrow> \<not> js_gt (Num n) m \<Longrightarrow> js_le (Num n) m"
  by (cases m) (auto simp: js_le_def js_gt_def)

lemma download_attempt_bound:
  "maxBytes \<noteq> NaN \<Longrightarrow> download_attempt res (Some maxBytes) = (Inr bytes, rd) \<Longrightarrow>
   js_le (Num (int (length bytes))) maxBytes"
  by (auto simp: download_attempt_def js_le_not_gt
           split: data_http.splits if_splits option.splits sum.splits jsnum.splits)

lemma download_attempt_declared:
  "parseInt cl = Num declared \<Longrightarrow> js_gt (Num declared) maxBytes \<Longrightarrow>
   download_attempt (DataResponse True st (Some cl) body) (Some maxBytes)
     = (Inl (blob_too_large declared maxBytes), False)"
  using parseInt_Nil by (auto simp: download_attempt_def)

lemma download_attempt_oversize:
  "js_gt (Num (int (length (buffer :: byte list)))) maxBytes \<Longrightarrow>
   \<exists>msg rd. download_attempt (DataResponse True st cl (Inr buffer)) (Some maxBytes)
              = (Inl msg, rd)"
  by (auto simp: download_attempt_def split: option.splits jsnum.splits)

lemma downloadShard_from_bound:
  "maxBytes \<noteq> NaN \<Longrightarrow>
   downloadShard_from fetch tx (Some maxBytes) eps errs = (Inr bytes, reads) \<Longrightarrow>
   js_le (Num (int (length bytes))) maxBytes"
proof (induction eps arbitrary: errs reads)
  case Nil
  then show ?case by simp
next
  case (Cons ep eps)
  show ?case
  proof (cases "download_attempt (fetch (ep @ ''/'' @ tx)) (Some maxBytes)")
    case (Pair r rd)
    show ?thesis
    proof (cases r)
      case (Inr b)
      with Pair Cons.prems have "b = bytes" by simp
      with Pair Inr Cons.prems(1) show ?thesis using download_attempt_bound by blast
    next
      case (Inl msg)
      with Pair Cons.prems obtain reads' where
        "downloadShard_from fetch tx (Some maxBytes) eps (errs @ [ep @ '': '' @ msg])
           = (Inr bytes, reads')"
        by (auto split: prod.splits)
      with Cons.prems(1) show ?thesis by (rule Cons.IH)
    qed
  qed
qed

lemma download_attempt_success_reads:
  "download_attempt res maxBytes = (Inr b, rd) \<Longrightarrow> rd"
  by (auto simp: download_attempt_def
           split: data_http.splits if_splits option.splits sum.splits jsnum.splits)

lemma downloadShard_from_reads:
  "ep \<in> set (snd (downloadShard_from fetch tx maxBytes eps errs)) \<Longrightarrow>
   snd (download_attempt (fetch (ep @ ''/'' @ tx)) maxBytes)"
proof (induction eps arbitrary: errs)
  case Nil
  then show ?case by simp
next
  case (Cons a eps)
  show ?case
  proof (cases "download_attempt (fetch (a @ ''/'' @ tx)) maxBytes")
    case (Pair r rd)
    show ?thesis
    proof (cases r)
      case (Inr b)
      with Pair Cons.prems have "ep = a" by simp
      moreover from Pair Inr have rd using download_attempt_success_reads by blast
      ultimately show ?thesis using Pair by simp
    next
      case (Inl msg)
      with Pair Cons.prems have
        "(rd \<and> ep = a) \<or> ep \<in> set (snd (downloadShard_from fetch tx maxBytes eps
                                            (errs @ [a @ '': '' @ msg])))"
        by (auto split: prod.splits if_splits)
      then show ?thesis using Pair Cons.IH by auto
    qed
  qed
qed

text \<open>
  C7, as amended. With a limit \<open>maxBytes\<close> that is not \<open>NaN\<close>, \<open>downloadShard\<close>
  throws or returns at most \<open>maxBytes\<close> bytes. A response that is ok and whose
  \<open>content-length\<close> parses to a finite number above the limit is rejected with its body
  unread: the endpoint is not among those whose body was read. A body longer than the
  limit is never returned by the attempt: it is rejected, after the read when no header
  stopped the attempt before. A rejected endpoint counts as failed and the next one is
  tried.
\<close>

theorem downloadShard_size_cap:
  "(\<forall>bytes reads. maxBytes \<noteq> NaN
        \<and> downloadShard eps fetch tx (Some maxBytes) = (Inr bytes, reads) \<longrightarrow>
        js_le (Num (int (length bytes))) maxBytes)
   \<and> (\<forall>m bytes reads. downloadShard eps fetch tx (Some (Num m)) = (Inr bytes, reads) \<longrightarrow>
        int (length bytes) \<le> m)
   \<and> (\<forall>ep st cl body declared.
         fetch (ep @ ''/'' @ tx) = DataResponse True st (Some cl) body
         \<and> parseInt cl = Num declared \<and> js_gt (Num declared) maxBytes \<longrightarrow>
         download_attempt (fetch (ep @ ''/'' @ tx)) (Some maxBytes)
           = (Inl (blob_too_large declared maxBytes), False)
         \<and> ep \<notin> set (snd (downloadShard eps fetch tx (Some maxBytes))))
   \<and> (\<forall>st cl (buffer :: byte list). js_gt (Num (int (length buffer))) maxBytes \<longrightarrow>
         (\<exists>msg rd. download_attempt (DataResponse True st cl (Inr buffer)) (Some maxBytes)
                     = (Inl msg, rd))
         \<and> download_attempt (DataResponse True st None (Inr buffer)) (Some maxBytes)
             = (Inl (blob_too_large (int (length buffer)) maxBytes), True))"
proof (intro conjI allI impI)
  fix bytes reads
  assume "maxBytes \<noteq> NaN \<and> downloadShard eps fetch tx (Some maxBytes) = (Inr bytes, reads)"
  then show "js_le (Num (int (length bytes))) maxBytes"
    unfolding downloadShard_def using downloadShard_from_bound by blast
next
  fix m bytes reads
  assume "downloadShard eps fetch tx (Some (Num m)) = (Inr bytes, reads)"
  then have "js_le (Num (int (length bytes))) (Num m)"
    unfolding downloadShard_def using downloadShard_from_bound [of "Num m"] by blast
  then show "int (length bytes) \<le> m"
    by (simp add: js_le_def)
next
  fix ep st cl body declared
  assume h: "fetch (ep @ ''/'' @ tx) = DataResponse True st (Some cl) body
         \<and> parseInt cl = Num declared \<and> js_gt (Num declared) maxBytes"
  then show a: "download_attempt (fetch (ep @ ''/'' @ tx)) (Some maxBytes)
           = (Inl (blob_too_large declared maxBytes), False)"
    by (simp add: download_attempt_declared)
  show "ep \<notin> set (snd (downloadShard eps fetch tx (Some maxBytes)))"
    using downloadShard_from_reads [of ep fetch tx "Some maxBytes" eps "[]"] a
    by (auto simp: downloadShard_def)
next
  fix st cl and buffer :: "byte list"
  assume "js_gt (Num (int (length buffer))) maxBytes"
  then show "\<exists>msg rd. download_attempt (DataResponse True st cl (Inr buffer)) (Some maxBytes)
                     = (Inl msg, rd)"
    by (rule download_attempt_oversize)
next
  fix st cl and buffer :: "byte list"
  assume "js_gt (Num (int (length buffer))) maxBytes"
  then show "download_attempt (DataResponse True st None (Inr buffer)) (Some maxBytes)
             = (Inl (blob_too_large (int (length buffer)) maxBytes), True)"
    by (simp add: download_attempt_def)
qed

lemma parseInt_300000: "parseInt ''300000'' = Num 300000"
  by (simp add: parseInt_def isWhiteSpace_def isDigit_def digitVal_def to_number_def
        round_double_def)

lemma data_world_run:
  "downloadShard two_gateways data_world ''tx-9'' (Some (Num 102400))
     = (Inr [1, 2, 3], [''https://g8way.io''])"
  by (simp add: downloadShard_def two_gateways_def data_world_def download_attempt_def
        parseInt_300000 js_gt_def)

theorem downloadShard_size_cap_witness:
  "downloadShard two_gateways data_world ''tx-9'' (Some (Num 102400))
     = (Inr [1, 2, 3], [''https://g8way.io''])
   \<and> js_le (Num (int (length [1, 2, 3 :: byte]))) (Num 102400)
   \<and> data_world (''https://arweave.net'' @ ''/'' @ ''tx-9'')
       = DataResponse True ''200 OK'' (Some ''300000'') (Inr (replicate 7 0))
   \<and> parseInt ''300000'' = Num 300000 \<and> js_gt (Num 300000) (Num 102400)
   \<and> ''https://arweave.net''
        \<notin> set (snd (downloadShard two_gateways data_world ''tx-9'' (Some (Num 102400))))
   \<and> js_gt (Num (int (length [1, 2, 3 :: byte]))) (Num 2)
   \<and> fst (downloadShard two_gateways data_world ''tx-9'' (Some (Num 2))) =
        Inl (''Arweave download failed for tx-9 across all gateways: '' @
             ''https://arweave.net: '' @ blob_too_large 300000 (Num 2) @ '' | '' @
             ''https://g8way.io: '' @ blob_too_large 3 (Num 2))"
  using data_world_run parseInt_300000
    downloadShard_size_cap [of "Num 102400" two_gateways data_world "''tx-9''"]
    downloadShard_size_cap [of "Num 2" two_gateways data_world "''tx-9''"]
  by (simp add: downloadShard_def two_gateways_def data_world_def download_attempt_def
        js_gt_def js_le_def)

lemma bitlen_upper: "n < 2 ^ bitlen n"
proof (induction n rule: bitlen.induct)
  case (1 n)
  show ?case
  proof (cases "n = 0")
    case True
    then show ?thesis by (simp add: bitlen.simps)
  next
    case False
    from "1.IH" [OF False] have "n div 2 < 2 ^ bitlen (n div 2)" .
    then have "n < 2 * 2 ^ bitlen (n div 2)" by linarith
    with False show ?thesis by (simp add: bitlen.simps [of n])
  qed
qed

lemma bitlen_lower: "n \<noteq> 0 \<Longrightarrow> 2 ^ (bitlen n - 1) \<le> n"
proof (induction n rule: bitlen.induct)
  case (1 n)
  from "1.prems" have b: "bitlen n = Suc (bitlen (n div 2))"
    by (simp add: bitlen.simps [of n])
  show ?case
  proof (cases "n div 2 = 0")
    case True
    then have "bitlen (n div 2) = 0" by (simp add: bitlen.simps)
    with b "1.prems" show ?thesis by simp
  next
    case False
    from "1.IH" [OF "1.prems" False] have ih: "2 ^ (bitlen (n div 2) - 1) \<le> n div 2" .
    from False have "bitlen (n div 2) \<noteq> 0" by (simp add: bitlen.simps [of "n div 2"])
    then obtain c where c: "bitlen (n div 2) = Suc c" by (cases "bitlen (n div 2)") auto
    with ih have "2 * 2 ^ c \<le> 2 * (n div 2)" by simp
    also have "\<dots> \<le> n" by simp
    finally show ?thesis using b c by simp
  qed
qed

lemma round_double_overflow:
  assumes "2 ^ 1024 \<le> n"
  shows "round_double n = None"
proof -
  define b where "b = bitlen n"
  define e where "e = b - 53"
  have n0: "n \<noteq> 0" using assms by auto
  have "(2::nat) ^ 1024 < 2 ^ b"
    using assms bitlen_upper [of n] unfolding b_def by linarith
  then have b: "1024 < b" by (rule power_less_imp_less_exp [rotated]) simp
  then have split: "b - 1 = 52 + e" unfolding e_def by simp
  have low: "(2::nat) ^ 1024 \<le> 2 ^ (b - 1)"
    using b by (intro power_increasing) auto
  have "(2::nat) ^ 52 * 2 ^ e \<le> n"
    using bitlen_lower [OF n0] split unfolding b_def by (simp add: power_add)
  then have "2 ^ 52 * 2 ^ e div 2 ^ e \<le> n div 2 ^ e" by (rule div_le_mono)
  then have q: "(2::nat) ^ 52 \<le> n div 2 ^ e" by simp
  have big: "\<And>q'. n div 2 ^ e \<le> q' \<Longrightarrow> (2::nat) ^ 1024 \<le> q' * 2 ^ e"
  proof -
    fix q' :: nat
    assume "n div 2 ^ e \<le> q'"
    with q have "(2::nat) ^ 52 \<le> q'" by linarith
    then have "(2::nat) ^ 52 * 2 ^ e \<le> q' * 2 ^ e" by simp
    moreover have "(2::nat) ^ 52 * 2 ^ e = 2 ^ (b - 1)" using split by (simp add: power_add)
    ultimately show "(2::nat) ^ 1024 \<le> q' * 2 ^ e" using low by linarith
  qed
  have big0: "(2::nat) ^ 1024 \<le> n div 2 ^ e * 2 ^ e" by (rule big) simp
  have big1: "(2::nat) ^ 1024 \<le> (n div 2 ^ e + 1) * 2 ^ e" by (rule big) simp
  have n53: "\<not> n < 2 ^ 53"
  proof -
    have "(2::nat) ^ 53 \<le> 2 ^ 1024" by (intro power_increasing) auto
    with assms show ?thesis by linarith
  qed
  show ?thesis
    using n53 big0 big1
    unfolding e_def b_def
    by (auto simp: round_double_def Let_def)
qed

lemma digits_grow:
  "a * 10 ^ n \<le> foldl (\<lambda>a c. 10 * a + digitVal c) a (replicate n c)"
proof (induction n arbitrary: a)
  case 0
  then show ?case by simp
next
  case (Suc n)
  have "a * 10 ^ Suc n \<le> (10 * a + digitVal c) * 10 ^ n"
    by (simp add: algebra_simps)
  also have "\<dots> \<le> foldl (\<lambda>a c. 10 * a + digitVal c) (10 * a + digitVal c) (replicate n c)"
    by (rule Suc.IH)
  finally show ?case by simp
qed

lemma parseInt_huge_length: "parseInt huge_length = Infinity"
proof -
  have nine: "isDigit (CHR ''9'')" "\<not> isWhiteSpace (CHR ''9'')" "digitVal (CHR ''9'') = 9"
    by (simp_all add: isDigit_def isWhiteSpace_def digitVal_def)
  let ?v = "foldl (\<lambda>a c. 10 * a + digitVal c) 9 (replicate 399 (CHR ''9''))"
  have "(2::nat) ^ 1024 \<le> 9 * 10 ^ 399" by simp
  also have "\<dots> \<le> ?v" by (rule digits_grow)
  finally have "round_double ?v = None" by (rule round_double_overflow)
  then show ?thesis
    by (simp add: parseInt_def huge_length_def nine takeWhile_replicate to_number_def)
qed

text \<open>
  C7 as stated fails in two ways. With \<open>maxBytes = NaN\<close>, which is a number, both
  comparisons are false: the first gateway declares 300000 bytes, is not rejected, and its
  seven bytes are returned, while no length is at most \<open>NaN\<close>. And a
  \<open>content-length\<close> of four hundred digits declares more than the limit of 102400 but
  parses to \<open>Infinity\<close>, so the header is not compared: the response is not rejected
  and its body is read and returned.
\<close>

theorem downloadShard_limit_counterexample:
  "downloadShard two_gateways data_world ''tx-9'' (Some NaN)
     = (Inr (replicate 7 0), [''https://arweave.net''])
   \<and> \<not> js_le (Num (int (length (replicate 7 (0 :: byte))))) NaN
   \<and> huge_header_world (''https://arweave.net'' @ ''/'' @ ''tx-9'')
       = DataResponse True ''200 OK'' (Some huge_length) (Inr [1, 2, 3])
   \<and> length huge_length = 400
   \<and> parseInt huge_length = Infinity
   \<and> downloadShard two_gateways huge_header_world ''tx-9'' (Some (Num 102400))
       = (Inr [1, 2, 3], [''https://arweave.net''])"
proof -
  have a: "downloadShard two_gateways data_world ''tx-9'' (Some NaN)
     = (Inr (replicate 7 0), [''https://arweave.net''])"
    by (simp add: downloadShard_def two_gateways_def data_world_def download_attempt_def
          parseInt_300000 js_gt_def)
  have b: "\<not> js_le (Num (int (length (replicate 7 (0 :: byte))))) NaN"
    by (simp add: js_le_def)
  have c: "huge_header_world (''https://arweave.net'' @ ''/'' @ ''tx-9'')
       = DataResponse True ''200 OK'' (Some huge_length) (Inr [1, 2, 3])"
    by (simp add: huge_header_world_def)
  have d: "length huge_length = 400"
    by (simp add: huge_length_def)
  have nonempty: "huge_length \<noteq> []"
    by (simp add: huge_length_def)
  have e: "downloadShard two_gateways huge_header_world ''tx-9'' (Some (Num 102400))
       = (Inr [1, 2, 3], [''https://arweave.net''])"
    using c nonempty
    by (simp add: downloadShard_def two_gateways_def download_attempt_def
          parseInt_huge_length js_gt_def)
  from a b c d e parseInt_huge_length show ?thesis by simp
qed

lemma trim_Nil: "trim [] = []"
  by (simp add: trim_def)

lemma shardOfNode_Some:
  assumes "shardOfNode w n = Some s"
  shows "si_txId s = node_id n
       \<and> map_of (rev (node_tags n)) ''Type'' = Some (si_type s)
       \<and> (si_type s = ''delta'' \<or> si_type s = ''snapshot'' \<or> si_type s = ''identity'')
       \<and> map_of (rev (node_tags n)) ''Wallet'' = Some (si_wallet s)
       \<and> toLowerCase (si_wallet s) = toLowerCase w
       \<and> (\<exists>sg. map_of (rev (node_tags n)) ''Signature'' = Some sg \<and> sg \<noteq> []
              \<and> si_signature s = Some (trim sg) \<and> trim sg \<noteq> [])
       \<and> (si_type s \<noteq> ''identity'' \<longrightarrow>
             (\<exists>rv. map_of (rev (node_tags n)) ''Version'' = Some rv
                   \<and> parseInt rv = Num (si_version s))
             \<and> 1 \<le> si_version s)
       \<and> (si_type s = ''identity'' \<longrightarrow> si_version s = 0)"
proof -
  let ?t = "map_of (rev (node_tags n))"
  from assms obtain ty where ty: "?t ''Type'' = Some ty"
    and ty3: "ty = ''delta'' \<or> ty = ''snapshot'' \<or> ty = ''identity''"
    by (cases "?t ''Type''") (auto simp: shardOfNode_def Let_def split: if_splits)
  from assms ty obtain wt where wt: "?t ''Wallet'' = Some wt" and wt2: "wt \<noteq> []"
    "toLowerCase wt = toLowerCase w"
    by (cases "?t ''Wallet''") (auto simp: shardOfNode_def Let_def split: if_splits)
  from assms ty wt wt2 obtain sg where sg: "?t ''Signature'' = Some sg" and sg2: "trim sg \<noteq> []"
    by (cases "?t ''Signature''")
       (auto simp: shardOfNode_def Let_def split: if_splits option.splits jsnum.splits)
  have sg3: "sg \<noteq> []" using sg2 trim_Nil by auto
  show ?thesis
  proof (cases "ty = ''identity''")
    case True
    with assms ty wt wt2 sg sg2 sg3 show ?thesis
      by (auto simp: shardOfNode_def Let_def)
  next
    case False
    with ty3 have d: "ty = ''delta'' \<or> ty = ''snapshot''" by simp
    with assms ty wt wt2 sg sg2 obtain rv v where rv: "?t ''Version'' = Some rv"
      "parseInt rv = Num v" "1 \<le> v"
      and s: "s = \<lparr>si_txId = node_id n, si_version = v, si_type = ty,
                   si_timestamp = (case ?t ''Timestamp'' of None \<Rightarrow> [] | Some t \<Rightarrow> t),
                   si_signature = Some (trim sg), si_wallet = wt\<rparr>"
      by (auto simp: shardOfNode_def Let_def split: if_splits option.splits jsnum.splits)
    with ty wt wt2 sg sg2 sg3 d False show ?thesis by auto
  qed
qed


lemma collect_edges_all:
  assumes "collect_edges w es shards seen = (shards', seen')"
    and "\<forall>s\<in>set shards. Q s"
    and "\<forall>e\<in>set es. \<forall>s. shardOfNode w (edge_node e) = Some s \<longrightarrow> Q s"
  shows "\<forall>s\<in>set shards'. Q s"
  using assms
proof (induction es arbitrary: shards seen)
  case Nil
  then show ?case by simp
next
  case (Cons e es)
  have rest: "\<forall>e\<in>set es. \<forall>s. shardOfNode w (edge_node e) = Some s \<longrightarrow> Q s"
    using Cons.prems(3) by simp
  show ?case
  proof (cases "node_id (edge_node e) \<in> seen")
    case True
    with Cons.prems(1) have "collect_edges w es shards seen = (shards', seen')" by simp
    from Cons.IH [OF this Cons.prems(2) rest] show ?thesis .
  next
    case False
    show ?thesis
    proof (cases "shardOfNode w (edge_node e)")
      case None
      with False Cons.prems(1) have
        "collect_edges w es shards (insert (node_id (edge_node e)) seen) = (shards', seen')"
        by simp
      from Cons.IH [OF this Cons.prems(2) rest] show ?thesis .
    next
      case (Some s)
      with False Cons.prems(1) have c:
        "collect_edges w es (shards @ [s]) (insert (node_id (edge_node e)) seen)
           = (shards', seen')"
        by simp
      have "Q s" using Cons.prems(3) Some by simp
      with Cons.prems(2) have "\<forall>x\<in>set (shards @ [s]). Q x" by simp
      from Cons.IH [OF c this rest] show ?thesis .
    qed
  qed
qed

lemma shardOfNode_txId: "shardOfNode w n = Some s \<Longrightarrow> si_txId s = node_id n"
  using shardOfNode_Some by blast

lemma collect_edges_distinct:
  assumes "collect_edges w es shards seen = (shards', seen')"
    and "distinct (map si_txId shards)" and "si_txId ` set shards \<subseteq> seen"
  shows "distinct (map si_txId shards') \<and> si_txId ` set shards' \<subseteq> seen'"
  using assms
proof (induction es arbitrary: shards seen)
  case Nil
  then show ?case by simp
next
  case (Cons e es)
  show ?case
  proof (cases "node_id (edge_node e) \<in> seen")
    case True
    with Cons.prems(1) have "collect_edges w es shards seen = (shards', seen')" by simp
    from Cons.IH [OF this Cons.prems(2,3)] show ?thesis .
  next
    case False
    show ?thesis
    proof (cases "shardOfNode w (edge_node e)")
      case None
      with False Cons.prems(1) have c:
        "collect_edges w es shards (insert (node_id (edge_node e)) seen) = (shards', seen')"
        by simp
      have sub: "si_txId ` set shards \<subseteq> insert (node_id (edge_node e)) seen"
        using Cons.prems(3) by auto
      from Cons.IH [OF c Cons.prems(2) sub] show ?thesis .
    next
      case (Some s)
      with False Cons.prems(1) have c:
        "collect_edges w es (shards @ [s]) (insert (node_id (edge_node e)) seen)
           = (shards', seen')"
        by simp
      have id: "si_txId s = node_id (edge_node e)" using Some by (rule shardOfNode_txId)
      have d: "distinct (map si_txId (shards @ [s]))"
        using Cons.prems(2,3) False id by auto
      have sub: "si_txId ` set (shards @ [s]) \<subseteq> insert (node_id (edge_node e)) seen"
        using Cons.prems(3) id by auto
      from Cons.IH [OF c d sub] show ?thesis .
    qed
  qed
qed


lemma queryShards_loop_unfold:
  assumes "queryShards_loop eps fetch w pc after shards seen = Inr result"
  shows "\<not> GQL_MAX_PAGES < Suc pc \<and>
    (\<exists>json. fst (gqlRequest eps (fetch (Suc pc) after)) = Inr json \<and> json_errors json = []
       \<and> (if json_edges json = [] then result = shards
           else (\<exists>shards' seen'. collect_edges w (json_edges json) shards seen = (shards', seen')
                 \<and> (if \<not> json_hasNextPage json \<or> edge_cursor (last (json_edges json)) = []
                     then result = shards'
                     else queryShards_loop eps fetch w (Suc pc)
                            (Some (edge_cursor (last (json_edges json)))) shards' seen'
                          = Inr result))))"
  using assms
  by (subst (asm) queryShards_loop.simps)
     (auto split: if_splits sum.splits prod.splits)

lemma queryShards_loop_inv:
  assumes "queryShards_loop eps fetch w pc after shards seen = Inr result"
    and "\<forall>s\<in>set shards. Q s"
    and "distinct (map si_txId shards)" and "si_txId ` set shards \<subseteq> seen"
    and "\<And>p a json e s. fst (gqlRequest eps (fetch p a)) = Inr json \<Longrightarrow>
                 e \<in> set (json_edges json) \<Longrightarrow> shardOfNode w (edge_node e) = Some s \<Longrightarrow> Q s"
  shows "(\<forall>s\<in>set result. Q s) \<and> distinct (map si_txId result)"
  using assms
proof (induction eps fetch w pc after shards seen rule: queryShards_loop.induct)
  case (1 eps fetch w pc after shards seen)
  note step = "1.prems"(5)
  from queryShards_loop_unfold [OF "1.prems"(1)]
  obtain json where pc: "\<not> GQL_MAX_PAGES < Suc pc"
    and json: "fst (gqlRequest eps (fetch (Suc pc) after)) = Inr json"
    and noerr: "json_errors json = []"
    and body: "if json_edges json = [] then result = shards
           else (\<exists>shards' seen'. collect_edges w (json_edges json) shards seen = (shards', seen')
                 \<and> (if \<not> json_hasNextPage json \<or> edge_cursor (last (json_edges json)) = []
                     then result = shards'
                     else queryShards_loop eps fetch w (Suc pc)
                            (Some (edge_cursor (last (json_edges json)))) shards' seen'
                          = Inr result))"
    by blast
  show ?case
  proof (cases "json_edges json = []")
    case True
    with body have "result = shards" by simp
    with "1.prems" show ?thesis by simp
  next
    case False
    with body obtain shards' seen' where
      c: "collect_edges w (json_edges json) shards seen = (shards', seen')"
      and tail: "if \<not> json_hasNextPage json \<or> edge_cursor (last (json_edges json)) = []
                 then result = shards'
                 else queryShards_loop eps fetch w (Suc pc)
                        (Some (edge_cursor (last (json_edges json)))) shards' seen'
                      = Inr result"
      by auto
    have edges: "\<forall>e\<in>set (json_edges json). \<forall>s. shardOfNode w (edge_node e) = Some s \<longrightarrow> Q s"
      using step [OF json] by blast
    have q': "\<forall>s\<in>set shards'. Q s"
      using collect_edges_all [OF c "1.prems"(2) edges] .
    have d': "distinct (map si_txId shards')" "si_txId ` set shards' \<subseteq> seen'"
      using collect_edges_distinct [OF c "1.prems"(3,4)] by auto
    show ?thesis
    proof (cases "\<not> json_hasNextPage json \<or> edge_cursor (last (json_edges json)) = []")
      case True
      with tail have "result = shards'" by simp
      with q' d' show ?thesis by simp
    next
      case stop: False
      with tail have next_run:
        "queryShards_loop eps fetch w (Suc pc) (Some (edge_cursor (last (json_edges json))))
           shards' seen' = Inr result"
        by simp
      have noerr': "\<not> json_errors json \<noteq> []" using noerr by simp
      show ?thesis
        by (rule "1.IH" [OF pc json noerr' False c [symmetric] stop next_run q' d' step])
    qed
  qed
qed

text \<open>
  C2. Every entry that \<open>queryShards\<close> returns comes from an edge of a page that a
  gateway served: its \<open>txId\<close> is the node's id; the node's \<open>Type\<close> tag is the entry's
  type and is \<open>delta\<close>, \<open>snapshot\<close> or \<open>identity\<close>; the node's \<open>Wallet\<close> tag
  is the entry's wallet and equals the queried address up to letter case; the node's
  \<open>Signature\<close> tag is present and not empty (and not blank: the entry carries it
  trimmed); for \<open>delta\<close> and \<open>snapshot\<close> the entry's version is what \<open>parseInt\<close>
  reads from the \<open>Version\<close> tag and is at least 1, so a node whose version does not
  parse to such a number is not returned; for \<open>identity\<close> the version is 0. No two
  entries share a transaction id. The list is sorted by version, ascending, and entries
  of equal version keep the order in which they were collected.
\<close>

theorem queryShards_strict_acceptance:
  assumes "queryShards eps fetch w = Inr result"
  shows "(\<forall>s\<in>set result. \<exists>p after json e.
            fst (gqlRequest eps (fetch p after)) = Inr json \<and> e \<in> set (json_edges json)
          \<and> si_txId s = node_id (edge_node e)
          \<and> map_of (rev (node_tags (edge_node e))) ''Type'' = Some (si_type s)
          \<and> (si_type s = ''delta'' \<or> si_type s = ''snapshot'' \<or> si_type s = ''identity'')
          \<and> map_of (rev (node_tags (edge_node e))) ''Wallet'' = Some (si_wallet s)
          \<and> toLowerCase (si_wallet s) = toLowerCase w
          \<and> (\<exists>sg. map_of (rev (node_tags (edge_node e))) ''Signature'' = Some sg \<and> sg \<noteq> []
                 \<and> si_signature s = Some (trim sg) \<and> trim sg \<noteq> [])
          \<and> (si_type s \<noteq> ''identity'' \<longrightarrow>
                (\<exists>rv. map_of (rev (node_tags (edge_node e))) ''Version'' = Some rv
                      \<and> parseInt rv = Num (si_version s))
                \<and> 1 \<le> si_version s)
          \<and> (si_type s = ''identity'' \<longrightarrow> si_version s = 0))
       \<and> distinct (map si_txId result)
       \<and> sorted (map si_version result)
       \<and> (\<exists>collected. queryShards_loop eps fetch w 0 None [] {} = Inr collected
             \<and> result = sort_key si_version collected
             \<and> (\<forall>v. filter (\<lambda>s. si_version s = v) result
                      = filter (\<lambda>s. si_version s = v) collected))"
proof -
  from assms obtain collected where
    loop: "queryShards_loop eps fetch w 0 None [] {} = Inr collected"
    and res: "result = sort_key si_version collected"
    by (auto simp: queryShards_def split: sum.splits)
  let ?Q = "\<lambda>s. \<exists>p after json e.
            fst (gqlRequest eps (fetch p after)) = Inr json \<and> e \<in> set (json_edges json)
          \<and> si_txId s = node_id (edge_node e)
          \<and> map_of (rev (node_tags (edge_node e))) ''Type'' = Some (si_type s)
          \<and> (si_type s = ''delta'' \<or> si_type s = ''snapshot'' \<or> si_type s = ''identity'')
          \<and> map_of (rev (node_tags (edge_node e))) ''Wallet'' = Some (si_wallet s)
          \<and> toLowerCase (si_wallet s) = toLowerCase w
          \<and> (\<exists>sg. map_of (rev (node_tags (edge_node e))) ''Signature'' = Some sg \<and> sg \<noteq> []
                 \<and> si_signature s = Some (trim sg) \<and> trim sg \<noteq> [])
          \<and> (si_type s \<noteq> ''identity'' \<longrightarrow>
                (\<exists>rv. map_of (rev (node_tags (edge_node e))) ''Version'' = Some rv
                      \<and> parseInt rv = Num (si_version s))
                \<and> 1 \<le> si_version s)
          \<and> (si_type s = ''identity'' \<longrightarrow> si_version s = 0)"
  have step: "\<And>p a json e s. fst (gqlRequest eps (fetch p a)) = Inr json \<Longrightarrow>
                 e \<in> set (json_edges json) \<Longrightarrow> shardOfNode w (edge_node e) = Some s \<Longrightarrow> ?Q s"
  proof -
    fix p a json e s
    assume j: "fst (gqlRequest eps (fetch p a)) = Inr json" and e: "e \<in> set (json_edges json)"
      and s: "shardOfNode w (edge_node e) = Some s"
    from shardOfNode_Some [OF s] j e show "?Q s"
      by (intro exI [of _ p] exI [of _ a] exI [of _ json] exI [of _ e]) simp
  qed
  have inv: "(\<forall>s\<in>set collected. ?Q s) \<and> distinct (map si_txId collected)"
    by (rule queryShards_loop_inv [OF loop _ _ _ step]) simp_all
  have q: "\<forall>s\<in>set result. ?Q s"
    using inv res by simp
  have d: "distinct (map si_txId result)"
    using inv res by (simp add: distinct_map)
  have so: "sorted (map si_version result)"
    using res by simp
  have st: "\<forall>v. filter (\<lambda>s. si_version s = v) result = filter (\<lambda>s. si_version s = v) collected"
    using res by (simp add: sort_key_stable)
  from q d so st loop res show ?thesis by blast
qed

lemma parseInt_1_2:
  "parseInt ''1'' = Num 1" "parseInt ''2'' = Num 2" "parseInt ''v3'' = NaN"
  by (simp_all add: parseInt_def isWhiteSpace_def isDigit_def digitVal_def to_number_def
        round_double_def)

lemma lower_wallets:
  "toLowerCase ''Wallet-1'' = ''wallet-1''" "toLowerCase ''WALLET-1'' = ''wallet-1''"
  "toLowerCase ''wallet-1'' = ''wallet-1''"
  by (simp_all add: toLowerCase_def toLowerChar_def)

lemma trim_signatures:
  "trim ''sig-b'' = ''sig-b''" "trim '' sig-a '' = ''sig-a''" "trim ''sig-i'' = ''sig-i''"
  "trim ''sig-c'' = ''sig-c''" "trim ''sig-d'' = ''sig-d''" "trim ''  '' = []"
  by (simp_all add: trim_def isWhiteSpace_def)

lemma page1_collected:
  "collect_edges ''wallet-1'' (json_edges page1) [] {} =
     ([version2_shard, version1_shard], {''tx-1'', ''tx-2''})"
  by (simp add: page1_def shardOfNode_def shard_tags_def lower_wallets trim_signatures
        parseInt_1_2 version1_shard_def version2_shard_def insert_commute)

lemma page2_collected:
  "collect_edges ''wallet-1'' (json_edges page2) [version2_shard, version1_shard]
     {''tx-1'', ''tx-2''} =
     ([version2_shard, version1_shard, identity_shard],
      {''tx-1'', ''tx-2'', ''tx-3'', ''tx-4'', ''tx-5'', ''tx-6''})"
  by (simp add: page2_def shardOfNode_def shard_tags_def lower_wallets trim_signatures
        parseInt_1_2 identity_shard_def)
     auto

lemma paged_requests:
  "gqlRequest gql_gateways (paged_world p None) = (Inr page1, gql_gateways)"
  "gqlRequest gql_gateways (paged_world p (Some ''c2'')) = (Inr page2, gql_gateways)"
  by (simp_all add: gqlRequest_def gql_gateways_def paged_world_def gql_attempt_def)

lemma page_facts:
  "json_errors page1 = []" "json_edges page1 \<noteq> []" "json_hasNextPage page1"
  "edge_cursor (last (json_edges page1)) = ''c2''"
  "json_errors page2 = []" "json_edges page2 \<noteq> []" "\<not> json_hasNextPage page2"
  by (simp_all add: page1_def page2_def)

lemma paged_world_collected:
  "queryShards_loop gql_gateways paged_world ''wallet-1'' 0 None [] {}
     = Inr [version2_shard, version1_shard, identity_shard]"
  apply (subst queryShards_loop.simps)
  apply (simp add: GQL_MAX_PAGES_def paged_requests page_facts page1_collected)
  apply (subst queryShards_loop.simps)
  apply (simp add: GQL_MAX_PAGES_def paged_requests page_facts page2_collected)
  done

lemma paged_world_run:
  "queryShards gql_gateways paged_world ''wallet-1'' = Inr expected_shards"
  by (simp add: queryShards_def paged_world_collected)
     (simp add: expected_shards_def identity_shard_def version1_shard_def version2_shard_def)

theorem queryShards_strict_acceptance_witness:
  "queryShards gql_gateways paged_world ''wallet-1'' = Inr expected_shards
   \<and> map si_txId expected_shards = [''tx-3'', ''tx-2'', ''tx-1'']
   \<and> map si_version expected_shards = [0, 1, 2]
   \<and> map si_wallet expected_shards = [''Wallet-1'', ''WALLET-1'', ''Wallet-1'']
   \<and> distinct (map si_txId expected_shards)
   \<and> sorted (map si_version expected_shards)"
proof -
  from queryShards_strict_acceptance [OF paged_world_run]
  have "distinct (map si_txId expected_shards)" "sorted (map si_version expected_shards)"
    by blast+
  moreover have "map si_txId expected_shards = [''tx-3'', ''tx-2'', ''tx-1'']"
    "map si_version expected_shards = [0, 1, 2]"
    "map si_wallet expected_shards = [''Wallet-1'', ''WALLET-1'', ''Wallet-1'']"
    by (simp_all add: expected_shards_def identity_shard_def version1_shard_def
          version2_shard_def)
  ultimately show ?thesis using paged_world_run by simp
qed

lemma gqlRequest_from_answer:
  "gqlRequest_from fetch eps errs = (Inr json, contacted) \<Longrightarrow>
   \<exists>k<length eps. contacted = take (Suc k) eps \<and> gql_attempt (fetch (eps ! k)) = Inr json
      \<and> (\<forall>j<k. \<exists>m. gql_attempt (fetch (eps ! j)) = Inl m)"
proof (induction eps arbitrary: errs contacted)
  case Nil
  then show ?case by simp
next
  case (Cons ep eps)
  show ?case
  proof (cases "gql_attempt (fetch ep)")
    case (Inr j)
    with Cons.prems have "j = json" "contacted = [ep]" by auto
    with Inr show ?thesis by (intro exI [of _ 0]) simp
  next
    case (Inl m)
    with Cons.prems obtain c' where
      rest: "gqlRequest_from fetch eps (errs @ [ep @ '': '' @ m]) = (Inr json, c')"
      and c: "contacted = ep # c'"
      by (auto split: prod.splits)
    from Cons.IH [OF rest] obtain k where k: "k < length eps" "c' = take (Suc k) eps"
      "gql_attempt (fetch (eps ! k)) = Inr json"
      "\<forall>j<k. \<exists>m. gql_attempt (fetch (eps ! j)) = Inl m"
      by blast
    have "\<forall>j<Suc k. \<exists>m. gql_attempt (fetch ((ep # eps) ! j)) = Inl m"
      using Inl k(4) by (auto simp: nth_Cons split: nat.splits)
    with k c show ?thesis by (intro exI [of _ "Suc k"]) simp
  qed
qed

lemma gqlRequest_from_exhausted:
  "gqlRequest_from fetch eps errs = (Inl msg, contacted) \<Longrightarrow>
   contacted = eps \<and> (\<forall>ep\<in>set eps. \<exists>m. gql_attempt (fetch ep) = Inl m)
   \<and> msg = ''Arweave GraphQL request failed across all gateways: '' @
           join '' | '' (errs @ map (\<lambda>ep. ep @ '': '' @
                           (case gql_attempt (fetch ep) of Inl m \<Rightarrow> m | Inr _ \<Rightarrow> [])) eps)"
proof (induction eps arbitrary: errs contacted)
  case Nil
  then show ?case by simp
next
  case (Cons ep eps)
  show ?case
  proof (cases "gql_attempt (fetch ep)")
    case (Inr j)
    with Cons.prems show ?thesis by simp
  next
    case (Inl m)
    with Cons.prems obtain c' where
      rest: "gqlRequest_from fetch eps (errs @ [ep @ '': '' @ m]) = (Inl msg, c')"
      and c: "contacted = ep # c'"
      by (auto split: prod.splits)
    from Cons.IH [OF rest] Inl c show ?thesis by simp
  qed
qed

lemma queryShards_graphql_errors:
  assumes "gqlRequest eps (fetchp 1 None) = (Inr json, contacted)" and "json_errors json \<noteq> []"
  shows "queryShards eps fetchp w =
           Inl (''Arweave GraphQL returned errors: '' @
                join ''; '' (map (\<lambda>m. case m of None \<Rightarrow> ''unknown'' | Some s \<Rightarrow> s)
                                (json_errors json)))"
  using assms
  by (simp add: queryShards_def queryShards_loop.simps [of eps fetchp w 0] GQL_MAX_PAGES_def)

text \<open>
  C8, as amended. \<open>gqlRequest\<close> tries the endpoints in order. An endpoint fails when
  \<open>fetch\<close> throws (network error), when the status is not 2xx or when the body is not
  JSON; each of these makes the request go to the next endpoint. The answer returned is
  that of the first endpoint that does not fail, and only the endpoints up to it are
  contacted. The aggregated error is thrown only when every endpoint failed, and lists
  each endpoint with its message. A response with status 2xx whose body carries GraphQL
  \<open>errors\<close> is not a failure of the endpoint: \<open>gqlRequest\<close> returns it, and
  \<open>queryShards\<close> then throws \<open>Arweave GraphQL returned errors\<close> at once, without
  trying the next endpoint.
\<close>

theorem gqlRequest_failover:
  "(\<forall>json contacted. gqlRequest eps fetch = (Inr json, contacted) \<longrightarrow>
      (\<exists>k<length eps. contacted = take (Suc k) eps
          \<and> gql_attempt (fetch (eps ! k)) = Inr json
          \<and> (\<forall>j<k. \<exists>m. gql_attempt (fetch (eps ! j)) = Inl m)))
   \<and> (\<forall>msg contacted. gqlRequest eps fetch = (Inl msg, contacted) \<longrightarrow>
        contacted = eps \<and> (\<forall>ep\<in>set eps. \<exists>m. gql_attempt (fetch ep) = Inl m)
      \<and> msg = ''Arweave GraphQL request failed across all gateways: '' @
              join '' | '' (map (\<lambda>ep. ep @ '': '' @
                              (case gql_attempt (fetch ep) of Inl m \<Rightarrow> m | Inr _ \<Rightarrow> [])) eps))
   \<and> (\<forall>m. gql_attempt (GqlNetworkError m) = Inl m)
   \<and> (\<forall>st body. gql_attempt (GqlResponse False st body) = Inl st)
   \<and> (\<forall>st m. gql_attempt (GqlResponse True st (Inl m)) = Inl m)
   \<and> (\<forall>st json. gql_attempt (GqlResponse True st (Inr json)) = Inr json)
   \<and> (\<forall>json contacted.
        gqlRequest eps (fetchp 1 None) = (Inr json, contacted) \<and> json_errors json \<noteq> [] \<longrightarrow>
        queryShards eps fetchp w =
          Inl (''Arweave GraphQL returned errors: '' @
               join ''; '' (map (\<lambda>m. case m of None \<Rightarrow> ''unknown'' | Some s \<Rightarrow> s)
                               (json_errors json))))"
  using gqlRequest_from_answer [of fetch eps "[]"]
    gqlRequest_from_exhausted [of fetch eps "[]"]
    queryShards_graphql_errors [of eps fetchp _ _ w]
  by (simp add: gqlRequest_def gql_attempt_def)

lemma errors_world_first:
  "gqlRequest gql_gateways (errors_world p None)
     = (Inr errors_json, [''https://arweave.net/graphql''])"
  by (simp add: gqlRequest_def gql_gateways_def errors_world_def gql_attempt_def)

lemma errors_world_run:
  "queryShards gql_gateways errors_world ''wallet-1''
     = Inl ''Arweave GraphQL returned errors: rate limited''"
  using queryShards_graphql_errors
          [of gql_gateways errors_world errors_json "[''https://arweave.net/graphql'']"
              "''wallet-1''"]
        errors_world_first
  by (simp add: errors_json_def)

lemma paged_world_down:
  "gqlRequest gql_gateways (\<lambda>ep. GqlNetworkError ''fetch failed'')
     = (Inl ''Arweave GraphQL request failed across all gateways: https://arweave.net/graphql: fetch failed | https://g8way.io/graphql: fetch failed'',
        gql_gateways)"
  by (simp add: gqlRequest_def gql_gateways_def gql_attempt_def)

lemma paged_world_first:
  "gqlRequest gql_gateways (paged_world p None)
     = (Inr page1, gql_gateways)"
  by (simp add: gqlRequest_def gql_gateways_def paged_world_def gql_attempt_def)

lemma errors_world_second:
  "gqlRequest [''https://g8way.io/graphql''] (errors_world p None)
     = (Inr page1, [''https://g8way.io/graphql''])"
  "gqlRequest [''https://g8way.io/graphql''] (errors_world p (Some ''c2''))
     = (Inr page2, [''https://g8way.io/graphql''])"
  by (simp_all add: gqlRequest_def errors_world_def paged_world_def gql_attempt_def)

lemma errors_world_second_collected:
  "queryShards_loop [''https://g8way.io/graphql''] errors_world ''wallet-1'' 0 None [] {}
     = Inr [version2_shard, version1_shard, identity_shard]"
  apply (subst queryShards_loop.simps)
  apply (simp add: GQL_MAX_PAGES_def errors_world_second page_facts page1_collected)
  apply (subst queryShards_loop.simps)
  apply (simp add: GQL_MAX_PAGES_def errors_world_second page_facts page2_collected)
  done

lemma errors_world_second_run:
  "queryShards [''https://g8way.io/graphql''] errors_world ''wallet-1'' = Inr expected_shards"
  by (simp add: queryShards_def errors_world_second_collected)
     (simp add: expected_shards_def identity_shard_def version1_shard_def version2_shard_def)

theorem gqlRequest_failover_witness:
  "gqlRequest gql_gateways (paged_world 1 None) = (Inr page1, gql_gateways)
   \<and> gql_attempt (paged_world 1 None (gql_gateways ! 0)) = Inl ''fetch failed''
   \<and> gql_attempt (paged_world 1 None (gql_gateways ! 1)) = Inr page1
   \<and> gqlRequest gql_gateways (\<lambda>ep. GqlNetworkError ''fetch failed'')
       = (Inl ''Arweave GraphQL request failed across all gateways: https://arweave.net/graphql: fetch failed | https://g8way.io/graphql: fetch failed'',
          gql_gateways)
   \<and> gqlRequest gql_gateways (errors_world 1 None)
       = (Inr errors_json, [''https://arweave.net/graphql''])
   \<and> json_errors errors_json \<noteq> []
   \<and> queryShards gql_gateways errors_world ''wallet-1''
       = Inl ''Arweave GraphQL returned errors: rate limited''"
proof -
  have a: "gql_attempt (paged_world 1 None (gql_gateways ! 0)) = Inl ''fetch failed''"
    "gql_attempt (paged_world 1 None (gql_gateways ! 1)) = Inr page1"
    by (simp_all add: gql_gateways_def paged_world_def gql_attempt_def)
  have b: "json_errors errors_json \<noteq> []"
    by (simp add: errors_json_def)
  note t = gqlRequest_failover [of gql_gateways "errors_world 1 None" errors_world "''wallet-1''"]
  from t errors_world_first [of 1] b
  have "queryShards gql_gateways errors_world ''wallet-1'' =
          Inl (''Arweave GraphQL returned errors: '' @
               join ''; '' (map (\<lambda>m. case m of None \<Rightarrow> ''unknown'' | Some s \<Rightarrow> s)
                               (json_errors errors_json)))"
    by blast
  then have c: "queryShards gql_gateways errors_world ''wallet-1''
       = Inl ''Arweave GraphQL returned errors: rate limited''"
    by (simp add: errors_json_def)
  show ?thesis
    using a b c paged_world_first [of 1] paged_world_down errors_world_first [of 1]
    by simp
qed

text \<open>
  C8 as stated fails for a GraphQL-level errors response: the first gateway answers 200
  with an \<open>errors\<close> array, \<open>gqlRequest\<close> returns that answer having contacted the
  first gateway only, and \<open>queryShards\<close> throws, although the second gateway alone
  serves the wallet's shards.
\<close>

theorem graphql_errors_not_retried_counterexample:
  "gqlRequest gql_gateways (errors_world 1 None)
     = (Inr errors_json, [''https://arweave.net/graphql''])
   \<and> json_errors errors_json = [Some ''rate limited'']
   \<and> queryShards gql_gateways errors_world ''wallet-1''
       = Inl ''Arweave GraphQL returned errors: rate limited''
   \<and> queryShards [''https://g8way.io/graphql''] errors_world ''wallet-1''
       = Inr expected_shards"
proof -
  have "json_errors errors_json = [Some ''rate limited'']"
    by (simp add: errors_json_def)
  then show ?thesis
    by (simp add: errors_world_first errors_world_run errors_world_second_run)
qed


section \<open>Properties of share redemption\<close>

lemma saved_once:
  assumes "saveSharedConversationImport d entry t = (None, d1)"
  shows "length (filter (\<lambda>r. imp_share_id r = entry_shareId entry)
                  (shared_conversation_imports d1)) = 1
       \<and> hasSharedConversationImport d1 (entry_shareId entry)"
  using assms
  by (auto simp: saveSharedConversationImport_def hasSharedConversationImport_def list_ex_iff
           filter_empty_conv split: if_splits)

lemma syncCommand_imported:
  assumes "syncCommand env (Some d) tok = (ConversationImported entry, store1)"
  shows "\<exists>decoded txId d1.
           decodeToken env tok = Inr decoded
         \<and> load_share env decoded = Inr (txId, entry_conversation entry)
         \<and> entry_shareId entry = tok_shareId decoded
         \<and> \<not> hasSharedConversationImport d (tok_shareId decoded)
         \<and> saveSharedConversationImport d entry (clock_now env) = (None, d1)
         \<and> store1 = Some d1"
  using assms
  by (auto simp: syncCommand_def Let_def
           split: sum.splits prod.splits option.splits if_splits sql_error.splits)

lemma syncCommand_second_run:
  assumes "hasSharedConversationImport d1 (tok_shareId decoded)"
    and "decodeToken env' tok = Inr decoded"
  shows "syncCommand env' (Some d1) tok =
           (case load_share env' decoded of
              Inl e \<Rightarrow> SyncError e
            | Inr loaded \<Rightarrow> ShareAlreadyImported,
            Some d1)"
  using assms
  by (auto simp: syncCommand_def split: sum.splits prod.splits)

text \<open>
  C9, as amended. After a redemption that imported a conversation, the ledger holds
  exactly one row with the token's share id. A second run with the same token, in any
  world in which the token decodes as before, leaves the store as it is and writes no
  second row; it reports that the share is already imported when the share is fetched,
  verified, decrypted and validated again, and reports the failure of that step
  otherwise. In the world of the first run these steps succeed again, so the second run
  reports that the share is already imported.
\<close>

theorem share_redemption_second_run:
  assumes "syncCommand env (Some d) tok = (ConversationImported entry, store1)"
  shows "\<exists>decoded d1. decodeToken env tok = Inr decoded
           \<and> entry_shareId entry = tok_shareId decoded \<and> store1 = Some d1
           \<and> length (filter (\<lambda>r. imp_share_id r = tok_shareId decoded)
                        (shared_conversation_imports d1)) = 1
           \<and> syncCommand env (Some d1) tok = (ShareAlreadyImported, Some d1)
           \<and> (\<forall>env'. decodeToken env' tok = decodeToken env tok \<longrightarrow>
                  syncCommand env' (Some d1) tok =
                    (case load_share env' decoded of
                       Inl e \<Rightarrow> SyncError e
                     | Inr loaded \<Rightarrow> ShareAlreadyImported,
                     Some d1))"
proof -
  from syncCommand_imported [OF assms]
  obtain decoded txId d1 where
    dec: "decodeToken env tok = Inr decoded"
    and loaded: "load_share env decoded = Inr (txId, entry_conversation entry)"
    and sid: "entry_shareId entry = tok_shareId decoded"
    and sav: "saveSharedConversationImport d entry (clock_now env) = (None, d1)"
    and st: "store1 = Some d1"
    by blast
  from saved_once [OF sav] sid
  have one: "length (filter (\<lambda>r. imp_share_id r = tok_shareId decoded)
                       (shared_conversation_imports d1)) = 1"
    and has: "hasSharedConversationImport d1 (tok_shareId decoded)"
    by simp_all
  have again: "syncCommand env (Some d1) tok = (ShareAlreadyImported, Some d1)"
    using syncCommand_second_run [OF has dec] loaded by simp
  have other: "\<forall>env'. decodeToken env' tok = decodeToken env tok \<longrightarrow>
                  syncCommand env' (Some d1) tok =
                    (case load_share env' decoded of
                       Inl e \<Rightarrow> SyncError e
                     | Inr loaded \<Rightarrow> ShareAlreadyImported,
                     Some d1)"
  proof (intro allI impI)
    fix env' :: sync_env
    assume "decodeToken env' tok = decodeToken env tok"
    with dec have "decodeToken env' tok = Inr decoded" by simp
    from syncCommand_second_run [OF has this]
    show "syncCommand env' (Some d1) tok =
            (case load_share env' decoded of
               Inl e \<Rightarrow> SyncError e
             | Inr loaded \<Rightarrow> ShareAlreadyImported,
             Some d1)" .
  qed
  from dec sid st one again other show ?thesis by blast
qed

lemma share_world_download:
  "downloadShard two_gateways data_world ''tx-9'' (Some (Num MAX_SHARE_BYTES))
     = (Inr (replicate 7 0), [''https://arweave.net''])"
  by (simp add: downloadShard_def two_gateways_def data_world_def download_attempt_def
        parseInt_300000 MAX_SHARE_BYTES_def js_gt_def)

lemma share_world_token:
  "decodeToken share_world ''sharme://share/abc''
     = Inr \<lparr>tok_shareId = ''share-1'', tok_key = replicate 32 7, tok_txId = Some ''tx-9''\<rparr>"
  "decodeToken offline_world ''sharme://share/abc''
     = Inr \<lparr>tok_shareId = ''share-1'', tok_key = replicate 32 7, tok_txId = Some ''tx-9''\<rparr>"
  by (simp_all add: share_world_def offline_world_def)

lemma share_world_load:
  "load_share share_world
     \<lparr>tok_shareId = ''share-1'', tok_key = replicate 32 7, tok_txId = Some ''tx-9''\<rparr>
     = Inr (Some ''tx-9'', chat)"
proof -
  have fet: "fetch_share share_world
     \<lparr>tok_shareId = ''share-1'', tok_key = replicate 32 7, tok_txId = Some ''tx-9''\<rparr>
     = Inr (None, Some ''tx-9'', replicate 7 0)"
    by (simp add: fetch_share_def share_world_def share_world_download)
  have par: "decryptAndParse share_world (replicate 7 0) (replicate 32 7)
      = Some \<lparr>payload_v = 1, payload_conversation = Some chat, payload_well_typed = True\<rparr>"
    by (simp add: share_world_def)
  have val: "validatePayload \<lparr>payload_v = 1, payload_conversation = Some chat,
                               payload_well_typed = True\<rparr> = Inr chat"
    by (simp add: validatePayload_def chat_def)
  show ?thesis
    by (simp add: load_share_def fet par val)
qed

lemma offline_world_load:
  "load_share offline_world
     \<lparr>tok_shareId = ''share-1'', tok_key = replicate 32 7, tok_txId = Some ''tx-9''\<rparr>
     = Inl ''Arweave GraphQL request failed across all gateways: https://arweave.net/graphql: fetch failed | https://g8way.io/graphql: fetch failed''"
proof -
  have down: "fst (downloadShard two_gateways (\<lambda>url. DataNetworkError ''fetch failed'') ''tx-9''
                     (Some (Num MAX_SHARE_BYTES)))
      = Inl (''Arweave download failed for tx-9 across all gateways: '' @
             ''https://arweave.net: fetch failed | https://g8way.io: fetch failed'')"
    by (simp add: downloadShard_def two_gateways_def download_attempt_def)
  show ?thesis
    by (simp add: load_share_def fetch_share_def offline_world_def share_world_def down)
qed

lemma share_world_first_run:
  "syncCommand share_world (Some store0) ''sharme://share/abc''
     = (ConversationImported chat_entry, Some imported_store)"
proof -
  have clk: "clock_now share_world = ''2026-03-01T00:00:00.000Z''"
    by (simp add: share_world_def)
  have sav: "saveSharedConversationImport store0 chat_entry ''2026-03-01T00:00:00.000Z''
      = (None, imported_store)"
    by (simp add: saveSharedConversationImport_def store0_def chat_entry_def imported_store_def
          chat_def)
  have has: "\<not> hasSharedConversationImport store0 ''share-1''"
    by (simp add: hasSharedConversationImport_def store0_def)
  show ?thesis
    using sav
    by (simp add: syncCommand_def share_world_token share_world_load clk has chat_entry_def)
qed

theorem share_redemption_second_run_witness:
  "syncCommand share_world (Some store0) ''sharme://share/abc''
     = (ConversationImported chat_entry, Some imported_store)
   \<and> map imp_share_id (shared_conversation_imports imported_store) = [''share-1'']
   \<and> syncCommand share_world (Some imported_store) ''sharme://share/abc''
       = (ShareAlreadyImported, Some imported_store)"
proof -
  from share_redemption_second_run [OF share_world_first_run]
  have "syncCommand share_world (Some imported_store) ''sharme://share/abc''
       = (ShareAlreadyImported, Some imported_store)"
    by auto
  moreover have "map imp_share_id (shared_conversation_imports imported_store) = [''share-1'']"
    by (simp add: imported_store_def)
  ultimately show ?thesis using share_world_first_run by simp
qed

text \<open>
  C9 as stated fails when the second run cannot load the share: after the import in
  \<open>share_world\<close>, the same token run with the network down throws the error of the
  lookup and does not report that the share is already imported; the ledger, with its one
  row, is untouched.
\<close>

theorem offline_second_run_counterexample:
  "syncCommand share_world (Some store0) ''sharme://share/abc''
     = (ConversationImported chat_entry, Some imported_store)
   \<and> decodeToken offline_world ''sharme://share/abc''
       = decodeToken share_world ''sharme://share/abc''
   \<and> hasSharedConversationImport imported_store ''share-1''
   \<and> syncCommand offline_world (Some imported_store) ''sharme://share/abc''
       = (SyncError ''Arweave GraphQL request failed across all gateways: https://arweave.net/graphql: fetch failed | https://g8way.io/graphql: fetch failed'',
          Some imported_store)"
proof -
  have has: "hasSharedConversationImport imported_store ''share-1''"
    by (simp add: hasSharedConversationImport_def imported_store_def)
  have run: "syncCommand offline_world (Some imported_store) ''sharme://share/abc''
       = (SyncError ''Arweave GraphQL request failed across all gateways: https://arweave.net/graphql: fetch failed | https://g8way.io/graphql: fetch failed'',
          Some imported_store)"
    by (simp add: syncCommand_def share_world_token offline_world_load)
  from share_world_first_run share_world_token has run show ?thesis by simp
qed


end
